theory Spec2Isabelle
  imports Main "HOL-Library.Sublist"
begin

section \<open>Python strings\<close>

text \<open>
  A Python \<open>str\<close> is modelled as a list of characters; a \<^typ>\<open>char\<close> stands for the
  code point of the same number, so the model covers the strings whose code points lie
  below 256. \<open>is_space\<close> lists the code points in that range for which
  \<open>str.isspace\<close> holds; \<open>str.strip()\<close> removes them from both ends.
\<close>

definition is_space :: "char \<Rightarrow> bool" where
  "is_space c = (c \<in> set [CHR 0x09, CHR 0x0A, CHR 0x0B, CHR 0x0C, CHR 0x0D,
                            CHR 0x1C, CHR 0x1D, CHR 0x1E, CHR 0x1F, CHR 0x20,
                            CHR 0x85, CHR 0xA0])"

definition strip :: "string \<Rightarrow> string" where
  "strip s = rev (dropWhile is_space (rev (dropWhile is_space s)))"

definition strip_char :: "char \<Rightarrow> string \<Rightarrow> string" where
  \<comment> \<open>\<open>s.strip(c)\<close> for a one-character argument\<close>
  "strip_char c s = rev (dropWhile (\<lambda>x. x = c) (rev (dropWhile (\<lambda>x. x = c) s)))"

definition startswith :: "string \<Rightarrow> string \<Rightarrow> bool" where
  "startswith p s = (take (length p) s = p)"

definition endswith :: "string \<Rightarrow> string \<Rightarrow> bool" where
  "endswith p s = (length p \<le> length s \<and> drop (length s - length p) s = p)"

fun split_on :: "char \<Rightarrow> string \<Rightarrow> string list" where
  \<comment> \<open>\<open>s.split(sep)\<close> for a one-character separator: never the empty list\<close>
  "split_on sep [] = [[]]"
| "split_on sep (c # cs) =
     (if c = sep then [] # split_on sep cs
      else (case split_on sep cs of
              [] \<Rightarrow> [[c]]
            | p # ps \<Rightarrow> (c # p) # ps))"

function replace_all :: "string \<Rightarrow> string \<Rightarrow> string" where
  \<comment> \<open>\<open>s.replace(pat, '')\<close> for a non-empty pattern: occurrences are removed left to
      right, without overlap\<close>
  "replace_all pat [] = []"
| "replace_all pat (c # cs) =
     (if pat \<noteq> [] \<and> startswith pat (c # cs)
      then replace_all pat (drop (length pat) (c # cs))
      else c # replace_all pat cs)"
  by pat_completeness auto
termination
  by (relation "measure (\<lambda>(pat, s). length s)") auto

definition join_with :: "string \<Rightarrow> string list \<Rightarrow> string" where
  \<comment> \<open>\<open>sep.join(xs)\<close>\<close>
  "join_with sep xs = (case xs of [] \<Rightarrow> [] | y # ys \<Rightarrow> y @ concat (map (\<lambda>z. sep @ z) ys))"

text \<open>The exceptions that occur; a function that can raise returns a sum.\<close>

datatype py_error =
    IndexError | KeyError | TypeError | AttributeError | ValueError
  | CalledProcessError | TimeoutExpired | FileNotFoundError | OSError
  | EOFError | RecursionError | SystemExit

section \<open>Identity of a repository: \<open>parse_repo_url\<close>\<close>

text \<open>
  \<open>urllib.parse.urlparse\<close> is a library function. For a URL that starts with
  \<open>http://\<close> or \<open>https://\<close> it removes tab, carriage return and line feed, takes the
  scheme up to the first colon, the network location up to the first of \<open>/ ? #\<close>, cuts
  the fragment and the query off the rest, and cuts the parameters (from a semicolon)
  off the last path segment. It raises \<open>ValueError\<close> on a network location it does not
  accept (unbalanced square brackets, a bracketed host that is no address, characters
  that normalise to separators); which ones depends on the library's version, so the
  test is a parameter of the model.
\<close>

record url_parts =
  url_scheme :: string
  url_netloc :: string
  url_path :: string

definition split_params :: "string \<Rightarrow> string" where
  "split_params p =
     (let last_seg = rev (takeWhile (\<lambda>c. c \<noteq> CHR ''/'') (rev p));
          before = rev (dropWhile (\<lambda>c. c \<noteq> CHR ''/'') (rev p))
      in before @ takeWhile (\<lambda>c. c \<noteq> CHR '';'') last_seg)"

definition urlsplit_http :: "string \<Rightarrow> url_parts" where
  "urlsplit_http url =
     (let u = filter (\<lambda>c. c \<notin> set [CHR 0x09, CHR 0x0D, CHR 0x0A]) url;
          sch = takeWhile (\<lambda>c. c \<noteq> CHR '':'') u;
          rest = drop 3 (dropWhile (\<lambda>c. c \<noteq> CHR '':'') u);
          delim = (\<lambda>c. c \<in> set ''/?#'');
          net = takeWhile (\<lambda>c. \<not> delim c) rest;
          r1 = dropWhile (\<lambda>c. \<not> delim c) rest;
          r2 = takeWhile (\<lambda>c. c \<noteq> CHR ''#'') r1;
          r3 = takeWhile (\<lambda>c. c \<noteq> CHR ''?'') r2
      in \<lparr>url_scheme = sch, url_netloc = net, url_path = split_params r3\<rparr>)"

definition urlparse :: "(string \<Rightarrow> bool) \<Rightarrow> string \<Rightarrow> py_error + url_parts" where
  "urlparse netloc_invalid url =
     (let p = urlsplit_http url
      in if netloc_invalid (url_netloc p) then Inl ValueError else Inr p)"

definition unbalanced_brackets :: "string \<Rightarrow> bool" where
  \<comment> \<open>the rejection every version of the library makes (\<open>Invalid IPv6 URL\<close>)\<close>
  "unbalanced_brackets n = ((CHR ''['' \<in> set n) \<noteq> (CHR '']'' \<in> set n))"

definition match_ssh :: "string \<Rightarrow> (string \<times> string \<times> string) option" where
  \<comment> \<open>\<open>re.match(r'git@([^:]+):([^/]+)/([^/]+)', url)\<close>: the groups, or no match\<close>
  "match_ssh url =
     (if \<not> startswith ''git@'' url then None
      else
        let rest = drop 4 url;
            host = takeWhile (\<lambda>c. c \<noteq> CHR '':'') rest;
            r1 = dropWhile (\<lambda>c. c \<noteq> CHR '':'') rest
        in if host = [] \<or> r1 = [] then None
           else
             let r2 = tl r1;
                 usr = takeWhile (\<lambda>c. c \<noteq> CHR ''/'') r2;
                 r3 = dropWhile (\<lambda>c. c \<noteq> CHR ''/'') r2
             in if usr = [] \<or> r3 = [] then None
                else
                  let repo = takeWhile (\<lambda>c. c \<noteq> CHR ''/'') (tl r3)
                  in if repo = [] then None else Some (host, usr, repo))"

definition url_fallback :: "string \<Rightarrow> string \<times> string \<times> string" where
  "url_fallback url = (url, ''unknown'', replace_all ''.git'' (last (split_on CHR ''/'' url)))"

definition normalize_url :: "string \<Rightarrow> string" where
  \<comment> \<open>the first two statements: strip, then drop one trailing \<open>.git\<close>\<close>
  "normalize_url url0 =
     (let url1 = strip url0
      in if endswith ''.git'' url1 then take (length url1 - 4) url1 else url1)"

definition http_like :: "string \<Rightarrow> bool" where
  "http_like url = (startswith ''http://'' url \<or> startswith ''https://'' url)"

definition parse_repo_url ::
  "(string \<Rightarrow> bool) \<Rightarrow> string \<Rightarrow> py_error + (string \<times> string \<times> string)" where
  "parse_repo_url netloc_invalid url0 =
     (let url = normalize_url url0
      in if http_like url then
           (case urlparse netloc_invalid url of
              Inl err \<Rightarrow> Inl err
            | Inr parsed \<Rightarrow>
                let path_parts = split_on CHR ''/'' (strip_char CHR ''/'' (url_path parsed))
                in if length path_parts \<ge> 2 then
                     let usr = path_parts ! 0; repo = path_parts ! 1
                     in Inr (url_scheme parsed @ ''://'' @ url_netloc parsed @ ''/'' @ usr
                               @ ''/'' @ repo @ ''.git'', usr, repo)
                   else Inr (url_fallback url))
         else if startswith ''git@'' url then
           (case match_ssh url of
              Some (host, usr, repo) \<Rightarrow>
                Inr (''git@'' @ host @ '':'' @ usr @ ''/'' @ repo @ ''.git'', usr, repo)
            | None \<Rightarrow> Inr (url_fallback url))
         else if CHR ''/'' \<in> set url \<and> \<not> startswith ''http'' url then
           (let parts = split_on CHR ''/'' url
            in if length parts = 2 then
                 Inr (''https://github.com/'' @ parts ! 0 @ ''/'' @ parts ! 1 @ ''.git'',
                      parts ! 0, parts ! 1)
               else Inr (url_fallback url))
         else Inr (url_fallback url))"


text \<open>
  Vocabulary for the statements about \<open>parse_repo_url\<close>: a component is a non-empty
  string without white space and without the separators \<open>/ ? # ;\<close>; the three
  accepted shapes of a repository URL are built from components.
\<close>

definition component :: "string \<Rightarrow> bool" where
  "component s = (s \<noteq> [] \<and> (\<forall>c\<in>set s. \<not> is_space c \<and> c \<notin> set ''/?#;''))"





section \<open>Source catalog: one line of a \<open>repos*.conf\<close> file\<close>

text \<open>
  \<open>load_config\<close> turns each line of a catalog file into at most one entry; the body of
  its inner loop is \<open>parse_config_line\<close>. The dictionary it builds has the keys
  \<open>url\<close>, \<open>branch\<close>, \<open>name\<close> and \<open>source_file\<close>.
\<close>

record repo_entry =
  entry_url :: string
  entry_branch :: "string option"
  entry_name :: "string option"
  entry_source_file :: string

definition field_or_none :: "string list \<Rightarrow> nat \<Rightarrow> string option" where
  \<comment> \<open>\<open>parts[i] if len(parts) > i and parts[i] else None\<close>\<close>
  "field_or_none parts i = (if length parts > i \<and> parts ! i \<noteq> [] then Some (parts ! i) else None)"

definition split_fields :: "string \<Rightarrow> string list" where
  \<comment> \<open>\<open>[p.strip() for p in line.split(',')]\<close>\<close>
  "split_fields line = map strip (split_on CHR '','' line)"

definition parse_config_line :: "string \<Rightarrow> string \<Rightarrow> repo_entry option" where
  "parse_config_line source_label line0 =
     (let line = strip line0
      in if line \<noteq> [] \<and> \<not> startswith ''#'' line then
           (let parts = split_fields line
            in if hd parts = [] then None
               else Some \<lparr>entry_url = hd parts,
                          entry_branch = field_or_none parts 1,
                          entry_name = field_or_none parts 2,
                          entry_source_file = source_label\<rparr>)
         else None)"

text \<open>
  The catalog format of the docstring, \<open>url,branch,name\<close> with branch and name optional,
  written as a function of an entry. The source only reads catalogs; this is the writer
  the round trip is stated against.
\<close>

definition serialize_entry :: "repo_entry \<Rightarrow> string" where
  "serialize_entry e =
     (case entry_name e of
        Some n \<Rightarrow> entry_url e @ '','' @ (case entry_branch e of None \<Rightarrow> [] | Some b \<Rightarrow> b) @ '','' @ n
      | None \<Rightarrow> (case entry_branch e of
                   None \<Rightarrow> entry_url e
                 | Some b \<Rightarrow> entry_url e @ '','' @ b))"


text \<open>
  What a field of a parsed entry looks like: not empty, stripped, free of commas. A
  valid entry has such a URL, not starting with \<open>#\<close>, and such a branch and name
  where they are present.
\<close>

definition clean_field :: "string \<Rightarrow> bool" where
  "clean_field f = (f \<noteq> [] \<and> strip f = f \<and> CHR '','' \<notin> set f)"

definition opt_clean :: "string option \<Rightarrow> bool" where
  "opt_clean fo = (case fo of None \<Rightarrow> True | Some f \<Rightarrow> clean_field f)"

definition valid_entry :: "repo_entry \<Rightarrow> bool" where
  "valid_entry e = (clean_field (entry_url e) \<and> hd (entry_url e) \<noteq> CHR ''#''
                    \<and> opt_clean (entry_branch e) \<and> opt_clean (entry_name e))"


section \<open>The world of the package manager\<close>

subsection \<open>More of Python's strings\<close>

fun contains :: "string \<Rightarrow> string \<Rightarrow> bool" where
  \<comment> \<open>\<open>sub in s\<close>\<close>
  "contains sub [] = (sub = [])"
| "contains sub (c # cs) = (startswith sub (c # cs) \<or> contains sub cs)"

definition lower_char :: "char \<Rightarrow> char" where
  \<comment> \<open>\<open>str.lower\<close> on the code points below 256\<close>
  "lower_char c =
     (let n = (of_char c :: nat)
      in if (65 \<le> n \<and> n \<le> 90) \<or> (192 \<le> n \<and> n \<le> 222 \<and> n \<noteq> 215)
         then char_of (n + 32) else c)"

definition lower :: "string \<Rightarrow> string" where
  "lower s = map lower_char s"

function str_nat :: "nat \<Rightarrow> string" where
  \<comment> \<open>\<open>str(n)\<close> for a natural number\<close>
  "str_nat n = (if n < 10 then [char_of (48 + n)]
                else str_nat (n div 10) @ [char_of (48 + n mod 10)])"
  by pat_completeness auto
termination
  by (relation "measure id") auto

declare str_nat.simps [simp del]

definition str_int :: "int \<Rightarrow> string" where
  "str_int i = (if i < 0 then ''-'' @ str_nat (nat (- i)) else str_nat (nat i))"

definition quoted :: "string \<Rightarrow> string" where
  \<comment> \<open>a string between single quotes\<close>
  "quoted x = [CHR 0x27] @ x @ [CHR 0x27]"

definition opt_str :: "string option \<Rightarrow> string" where
  \<comment> \<open>how an f-string prints an optional string: \<open>None\<close> when absent\<close>
  "opt_str x = (case x of None \<Rightarrow> ''None'' | Some s \<Rightarrow> s)"

definition nonempty :: "string option \<Rightarrow> bool" where
  \<comment> \<open>truth of an optional string: present and not empty\<close>
  "nonempty x = (case x of None \<Rightarrow> False | Some s \<Rightarrow> s \<noteq> [])"

subsection \<open>JSON values and the dynamic operations used on them\<close>

text \<open>
  What \<open>json.load\<close> returns. \<open>JNull\<close> is Python's \<open>None\<close>; an object is the list of its
  key-value pairs, in the order of the file. Numbers are integers: the manifest and the
  code use numbers only for their truth value.
\<close>

datatype json =
    JNull | JBool bool | JNum int | JStr string
  | JArr "json list" | JObj "(string \<times> json) list"

definition truthy :: "json \<Rightarrow> bool" where
  "truthy j = (case j of
      JNull \<Rightarrow> False | JBool b \<Rightarrow> b | JNum n \<Rightarrow> n \<noteq> 0 | JStr s \<Rightarrow> s \<noteq> []
    | JArr xs \<Rightarrow> xs \<noteq> [] | JObj kvs \<Rightarrow> kvs \<noteq> [])"

definition py_in :: "string \<Rightarrow> json \<Rightarrow> py_error + bool" where
  \<comment> \<open>\<open>key in j\<close> for a string key\<close>
  "py_in key j = (case j of
      JObj kvs \<Rightarrow> Inr (map_of kvs key \<noteq> None)
    | JArr xs \<Rightarrow> Inr (JStr key \<in> set xs)
    | JStr s \<Rightarrow> Inr (contains key s)
    | _ \<Rightarrow> Inl TypeError)"

definition py_getitem :: "json \<Rightarrow> string \<Rightarrow> py_error + json" where
  \<comment> \<open>\<open>j[key]\<close> for a string key\<close>
  "py_getitem j key = (case j of
      JObj kvs \<Rightarrow> (case map_of kvs key of None \<Rightarrow> Inl KeyError | Some v \<Rightarrow> Inr v)
    | _ \<Rightarrow> Inl TypeError)"

definition py_get :: "json \<Rightarrow> string \<Rightarrow> json \<Rightarrow> py_error + json" where
  \<comment> \<open>\<open>j.get(key, default)\<close>\<close>
  "py_get j key dflt = (case j of
      JObj kvs \<Rightarrow> (case map_of kvs key of None \<Rightarrow> Inr dflt | Some v \<Rightarrow> Inr v)
    | _ \<Rightarrow> Inl AttributeError)"

definition py_iter :: "json \<Rightarrow> py_error + json list" where
  \<comment> \<open>the items a \<open>for\<close> loop over \<open>j\<close> visits\<close>
  "py_iter j = (case j of
      JArr xs \<Rightarrow> Inr xs
    | JObj kvs \<Rightarrow> Inr (map (\<lambda>kv. JStr (fst kv)) kvs)
    | JStr s \<Rightarrow> Inr (map (\<lambda>c. JStr [c]) s)
    | _ \<Rightarrow> Inl TypeError)"

subsection \<open>File system, registry, environment and state\<close>

text \<open>
  A file carries its executable bit and what \<open>json.load\<close> does when the file is read
  as a manifest. The file system maps a path to a directory or a file; a repository
  at \<open>p\<close> is the directory \<open>p\<close> and the files \<open>p/name\<close>. Paths are plain strings;
  \<open>pathlib\<close>'s removal of redundant separators is not modelled.
\<close>

datatype json_load = Loads json | DecodeError string | ReadError string

datatype node = Dir | File bool json_load

type_synonym filesystem = "(string \<times> node) list"

type_synonym tree = "(string \<times> node) list"

definition path_join :: "string \<Rightarrow> string \<Rightarrow> string" where
  \<comment> \<open>\<open>Path(a) / b\<close>\<close>
  "path_join a b = (if startswith ''/'' b then b else a @ ''/'' @ b)"

definition path_name :: "string \<Rightarrow> string" where
  \<comment> \<open>\<open>Path(p).name\<close>: the final component\<close>
  "path_name p = last (split_on CHR ''/'' p)"

definition path_suffix :: "string \<Rightarrow> string" where
  \<comment> \<open>\<open>Path(p).suffix\<close>: from the last dot of the name, unless the dot is first or last\<close>
  "path_suffix p =
     (let nm = path_name p;
          ext = rev (takeWhile (\<lambda>c. c \<noteq> CHR ''.'') (rev nm))
      in if CHR ''.'' \<in> set nm \<and> ext \<noteq> [] \<and> length ext + 1 < length nm
         then CHR ''.'' # ext else [])"

definition path_exists :: "filesystem \<Rightarrow> string \<Rightarrow> bool" where
  "path_exists fs p = (map_of fs p \<noteq> None)"

definition is_file :: "filesystem \<Rightarrow> string \<Rightarrow> bool" where
  "is_file fs p = (case map_of fs p of Some (File x l) \<Rightarrow> True | _ \<Rightarrow> False)"

definition executable :: "filesystem \<Rightarrow> string \<Rightarrow> bool" where
  \<comment> \<open>\<open>os.access(p, os.X_OK)\<close>\<close>
  "executable fs p = (case map_of fs p of Some (File x l) \<Rightarrow> x | Some Dir \<Rightarrow> True | None \<Rightarrow> False)"

definition set_executable :: "string \<Rightarrow> filesystem \<Rightarrow> filesystem" where
  \<comment> \<open>a successful \<open>os.chmod(p, 0o755)\<close>\<close>
  "set_executable p fs =
     map (\<lambda>(q, n). (q, case n of File x l \<Rightarrow> if q = p then File True l else File x l
                                | Dir \<Rightarrow> Dir)) fs"

definition under :: "string \<Rightarrow> string \<Rightarrow> bool" where
  \<comment> \<open>\<open>q\<close> is \<open>p\<close> or lies below it\<close>
  "under p q = (q = p \<or> startswith (p @ ''/'') q)"

definition remove_tree :: "string \<Rightarrow> filesystem \<Rightarrow> filesystem" where
  \<comment> \<open>a successful \<open>shutil.rmtree(p)\<close>\<close>
  "remove_tree p fs = filter (\<lambda>(q, n). \<not> under p q) fs"

definition mount :: "string \<Rightarrow> tree \<Rightarrow> filesystem" where
  \<comment> \<open>the directory \<open>p\<close> holding the files of a working tree\<close>
  "mount p t = (p, Dir) # map (\<lambda>(nm, n). (path_join p nm, n)) t"

text \<open>
  The record of an installed package has the keys of the dictionary that \<open>install\<close>
  writes; the registry keeps insertion order, as a Python dictionary does.
\<close>

record installed_record =
  rec_url :: string
  rec_user :: string
  rec_name :: string
  rec_repo_name :: string
  rec_branch :: "string option"
  rec_path :: string
  rec_setup_script :: "string option"
  rec_remove_script :: "string option"
  rec_update_script :: "string option"
  rec_check_script :: "string option"

type_synonym registry = "(string \<times> installed_record) list"

definition reg_update :: "string \<Rightarrow> installed_record \<Rightarrow> registry \<Rightarrow> registry" where
  \<comment> \<open>\<open>installed[k] = v\<close>: in place when the key is there, at the end otherwise\<close>
  "reg_update k v r = (if map_of r k = None then r @ [(k, v)]
                       else map (\<lambda>(k', v'). if k' = k then (k, v) else (k', v')) r)"

definition reg_delete :: "string \<Rightarrow> registry \<Rightarrow> registry" where
  \<comment> \<open>\<open>del installed[k]\<close>\<close>
  "reg_delete k r = filter (\<lambda>(k', v'). k' \<noteq> k) r"

text \<open>
  Every subprocess is a call of the environment's \<open>proc\<close> with the argument vector and
  the working directory; it exits with a return code, standard output and standard
  error, or the call raises (time-out, missing executable). The environment is fixed
  for one run of the program: the same command gives the same result. Effects that
  the model does not interpret (what a hook script or a \<open>git\<close> command other than
  \<open>clone\<close> does to the disk) appear in the trace only.
\<close>

datatype proc_result = Exit int string string | Raise py_error string

datatype event =
    Print string | PrintErr string
  | Run "string list" "string option"
  | Chmod string | RmTree string | SaveInstalled | Prompt string

datatype user_input = Line string | Interrupt

record env =
  system :: bool
  is_root :: bool
  apps_dir :: string
  distro :: string
  sys_executable :: string
  netloc_invalid :: "string \<Rightarrow> bool"
  config_files :: "(string \<times> string list option) list"
  proc :: "string list \<Rightarrow> string option \<Rightarrow> proc_result"
  worktree :: "string \<Rightarrow> string option \<Rightarrow> tree"
  chmod_fails :: "string \<Rightarrow> bool"
  rmtree_error :: "string \<Rightarrow> string option"
  mkdtemp :: "string \<Rightarrow> string"
  system_deps :: "json \<Rightarrow> py_error + (string list \<times> string)"
  signal_name :: "nat \<Rightarrow> string option"
  recursion_limit :: nat

record state =
  installed :: registry
  saved :: registry
  files :: filesystem
  stdin :: "user_input list"
  trace :: "event list"

definition emit :: "event \<Rightarrow> state \<Rightarrow> state" where
  "emit ev s = s\<lparr>trace := trace s @ [ev]\<rparr>"

definition emits :: "event list \<Rightarrow> state \<Rightarrow> state" where
  "emits evs s = s\<lparr>trace := trace s @ evs\<rparr>"

definition run :: "env \<Rightarrow> string list \<Rightarrow> string option \<Rightarrow> state \<Rightarrow> proc_result \<times> state" where
  \<comment> \<open>\<open>subprocess.run(argv, cwd=cwd)\<close>\<close>
  "run e argv cwd s = (proc e argv cwd, emit (Run argv cwd) s)"

definition save_installed :: "state \<Rightarrow> state" where
  \<comment> \<open>writes the registry file; the write is taken to succeed\<close>
  "save_installed s = emit SaveInstalled (s\<lparr>saved := installed s\<rparr>)"

definition rmtree :: "env \<Rightarrow> string \<Rightarrow> state \<Rightarrow> string option \<times> state" where
  \<comment> \<open>\<open>shutil.rmtree(p)\<close>: the text of the exception it raises, or \<open>None\<close> and the tree is
      gone; a failed removal leaves the file system as it was\<close>
  "rmtree e p s =
     (let s1 = emit (RmTree p) s
      in case rmtree_error e p of
           Some msg \<Rightarrow> (Some msg, s1)
         | None \<Rightarrow> if path_exists (files s) p
                   then (None, s1\<lparr>files := remove_tree p (files s)\<rparr>)
                   else (Some (''[Errno 2] No such file or directory: '' @ p), s1))"


section \<open>Manifest reader: \<open>load_gitpm_json\<close>\<close>

definition read_marker :: "string \<Rightarrow> json_load \<Rightarrow> json \<times> string option" where
  \<comment> \<open>the \<open>try\<close> statement: \<open>(json_data, error_message)\<close> for a candidate that exists\<close>
  "read_marker marker_file l =
     (case l of
        Loads j \<Rightarrow> (j, None)
      | DecodeError msg \<Rightarrow> (JNull, Some (''Invalid JSON in '' @ marker_file @ '': '' @ msg))
      | ReadError msg \<Rightarrow> (JNull, Some (''Error reading '' @ marker_file @ '': '' @ msg)))"

fun load_markers :: "filesystem \<Rightarrow> string \<Rightarrow> string list \<Rightarrow> json \<times> string option" where
  \<comment> \<open>the loop over \<open>marker_files\<close>\<close>
  "load_markers fs repo_path [] = (JNull, None)"
| "load_markers fs repo_path (marker_file # rest) =
     (if path_exists fs (path_join repo_path marker_file)
         \<and> is_file fs (path_join repo_path marker_file)
      then (case map_of fs (path_join repo_path marker_file) of
              Some (File x l) \<Rightarrow> read_marker marker_file l
            | _ \<Rightarrow> (JNull, None))
      else load_markers fs repo_path rest)"

definition load_gitpm_json :: "filesystem \<Rightarrow> string \<Rightarrow> json \<times> string option" where
  "load_gitpm_json fs repo_path = load_markers fs repo_path [''gitpm.json'', ''.gitpm.json'']"

section \<open>Remote verifier\<close>

definition ref_lines :: "string \<Rightarrow> string \<Rightarrow> string list" where
  \<comment> \<open>the lines of the \<open>ls-remote\<close> output whose second tab-separated field is the
      reference looked for (\<open>branch_refs\<close>, \<open>tag_refs\<close>)\<close>
  "ref_lines target remote_refs =
     filter (\<lambda>line. strip line \<noteq> [] \<and>
               (let parts = split_on (CHR 0x09) line
                in length parts \<ge> 2 \<and> parts ! 1 = target))
       (split_on (CHR 0x0A) remote_refs)"

definition verify_result :: "proc_result \<Rightarrow> string option \<Rightarrow> bool \<times> string" where
  \<comment> \<open>\<open>verify_repo\<close> from the outcome of \<open>git ls-remote --heads --tags\<close> on\<close>
  "verify_result r branch =
     (case r of
        Raise err msg \<Rightarrow>
          if err = TimeoutExpired then
            (False, ''Timeout while checking repository (network may be slow or repository unreachable)'')
          else if err = FileNotFoundError then (False, ''Git is not installed or not in PATH'')
          else (False, ''Unexpected error while verifying repository: '' @ msg)
      | Exit rc out err \<Rightarrow>
          if rc \<noteq> 0 then
            (let error_msg = (if err \<noteq> [] then strip err else ''Unknown error'')
             in if contains ''not found'' (lower error_msg)
                   \<or> contains ''does not exist'' (lower error_msg) then
                  (False, ''Repository not found or not accessible: '' @ error_msg)
                else if contains ''permission denied'' (lower error_msg)
                        \<or> contains ''authentication'' (lower error_msg) then
                  (False, ''Permission denied or authentication required: '' @ error_msg)
                else (False, ''Error accessing repository: '' @ error_msg))
          else
            (case branch of
               None \<Rightarrow> (True, [])
             | Some b \<Rightarrow>
                 if b = [] then (True, [])
                 else if ref_lines (''refs/heads/'' @ b) out \<noteq> [] then (True, [])
                 else if ref_lines (''refs/tags/'' @ b) out = [] then
                   (False, ''Branch '' @ quoted b @ '' not found in repository'')
                 else
                   (False, quoted b @ '' exists as a tag, not a branch. Please use a branch name.'')))"

definition verify_repo ::
  "env \<Rightarrow> string \<Rightarrow> string option \<Rightarrow> state \<Rightarrow> (bool \<times> string) \<times> state" where
  "verify_repo e repo_url branch s =
     (let (r, s1) = run e [''git'', ''ls-remote'', ''--heads'', ''--tags'', repo_url] None s
      in (verify_result r branch, s1))"

definition compat_markers :: "string list" where
  "compat_markers = [''.gitpm'', ''gitpm.json'', ''.gitpm.json'']"

definition compat_except :: "py_error \<Rightarrow> string \<Rightarrow> bool \<times> string" where
  \<comment> \<open>the two \<open>except\<close> clauses of \<open>check_repo_compatibility\<close>\<close>
  "compat_except err msg =
     (if err = TimeoutExpired then (False, ''Timeout while checking repository compatibility'')
      else (False, ''Error checking compatibility: '' @ msg))"

definition shallow_clone_cmd :: "string \<Rightarrow> string \<Rightarrow> string option \<Rightarrow> string list" where
  "shallow_clone_cmd url dest branch =
     [''git'', ''clone'', ''--depth'', ''1'', ''--no-checkout'', url, dest]
       @ (if nonempty branch then [''--branch'', the branch] else [])"

definition has_marker :: "filesystem \<Rightarrow> string \<Rightarrow> bool" where
  "has_marker fs repo_path = (\<exists>m \<in> set compat_markers. is_file fs (path_join repo_path m))"

definition compat_inspect ::
  "env \<Rightarrow> string \<Rightarrow> string option \<Rightarrow> string \<Rightarrow> state \<Rightarrow> (bool \<times> string) \<times> state" where
  \<comment> \<open>the checkout in the temporary clone and the search for a marker file; the clone
      holds the working tree the environment gives for the URL and the branch cloned\<close>
  "compat_inspect e repo_url used temp_repo_path s =
     (let (r, s1) = run e [''git'', ''checkout'', ''HEAD'', ''--''] (Some temp_repo_path) s
      in (case r of
            Raise err msg \<Rightarrow> (compat_except err msg, s1)
          | Exit rc out err \<Rightarrow>
              if has_marker (mount temp_repo_path (worktree e repo_url used)) temp_repo_path
              then ((True, []), s1)
              else ((False, ''Repository is not marked as gitpm-compatible ''
                            @ ''(missing marker file: '' @ join_with '', '' compat_markers
                            @ '')''), s1)))"

definition compat_clone ::
  "env \<Rightarrow> string \<Rightarrow> string option \<Rightarrow> string \<Rightarrow> state \<Rightarrow> (bool \<times> string) \<times> state" where
  \<comment> \<open>the shallow clone, tried again without the branch when it fails\<close>
  "compat_clone e repo_url branch temp_repo_path s =
     (let (r1, s1) = run e (shallow_clone_cmd repo_url temp_repo_path branch) None s
      in (case r1 of
            Raise err msg \<Rightarrow> (compat_except err msg, s1)
          | Exit rc1 out1 err1 \<Rightarrow>
              if rc1 = 0 then compat_inspect e repo_url branch temp_repo_path s1
              else if nonempty branch then
                (let (r2, s2) = run e (shallow_clone_cmd repo_url temp_repo_path None) None s1
                 in (case r2 of
                       Raise err msg \<Rightarrow> (compat_except err msg, s2)
                     | Exit rc2 out2 err2 \<Rightarrow>
                         if rc2 \<noteq> 0 then
                           ((False, ''Could not check compatibility: '' @ take 100 err2), s2)
                         else compat_inspect e repo_url None temp_repo_path s2))
              else ((False, ''Could not check compatibility: '' @ take 100 err1), s1)))"

definition check_repo_compatibility ::
  "env \<Rightarrow> string \<Rightarrow> string option \<Rightarrow> state \<Rightarrow> (bool \<times> string) \<times> state" where
  \<comment> \<open>the temporary directory is outside the tracked file system; its removal in the
      \<open>finally\<close> clause is an event only\<close>
  "check_repo_compatibility e repo_url branch s =
     (let temp_dir = mkdtemp e ''gitpm_check_'';
          (res, s1) = compat_clone e repo_url branch (path_join temp_dir ''repo'') s
      in (res, emit (RmTree temp_dir) s1))"


section \<open>Hook discovery and execution\<close>

record scripts =
  s_setup :: "string option"
  s_remove :: "string option"
  s_uninstall :: "string option"
  s_update :: "string option"
  s_check :: "string option"

definition hook_names :: "string \<Rightarrow> string \<Rightarrow> string \<Rightarrow> string list" where
  \<comment> \<open>one entry of \<open>script_names\<close>: scope-specific names first, then the generic ones\<close>
  "hook_names a b scope =
     [a @ ''-'' @ scope @ ''.sh'', b @ ''-'' @ scope @ ''.sh'',
      a @ ''-'' @ scope @ ''.py'', b @ ''-'' @ scope @ ''.py'',
      a @ ''.sh'', b @ ''.sh'', a @ ''.py'', b @ ''.py'']"

definition chmod_755 :: "env \<Rightarrow> string \<Rightarrow> state \<Rightarrow> state" where
  \<comment> \<open>\<open>os.chmod(p, 0o755)\<close> in a \<open>try\<close> whose handler does nothing\<close>
  "chmod_755 e p s =
     emit (Chmod p) (if chmod_fails e p then s else s\<lparr>files := set_executable p (files s)\<rparr>)"

definition shell_style :: "string \<Rightarrow> bool" where
  \<comment> \<open>\<open>script_path.suffix in ['.sh', '']\<close>\<close>
  "shell_style p = (path_suffix p = ''.sh'' \<or> path_suffix p = [])"

fun find_script :: "env \<Rightarrow> string \<Rightarrow> string list \<Rightarrow> state \<Rightarrow> string option \<times> state" where
  \<comment> \<open>the inner loop of \<open>check_scripts\<close> for one kind of hook\<close>
  "find_script e repo_path [] s = (None, s)"
| "find_script e repo_path (nm # names) s =
     (let script_path = path_join repo_path nm
      in if path_exists (files s) script_path \<and> is_file (files s) script_path then
           (let s1 = (if shell_style script_path then chmod_755 e script_path s else s)
            in if path_suffix script_path = ''.py'' \<or> executable (files s1) script_path
               then (Some script_path, s1)
               else find_script e repo_path names s1)
         else find_script e repo_path names s)"

definition check_scripts :: "env \<Rightarrow> string \<Rightarrow> state \<Rightarrow> scripts \<times> state" where
  "check_scripts e repo_path s =
     (let scope = (if system e then ''system'' else ''user'');
          (setup, s1) = find_script e repo_path (hook_names ''setup'' ''install'' scope) s;
          (remov, s2) = find_script e repo_path (hook_names ''remove'' ''uninstall'' scope) s1;
          (updat, s3) = find_script e repo_path (hook_names ''update'' ''upgrade'' scope) s2;
          (chk, s4) = find_script e repo_path (hook_names ''check'' ''check-updates'' scope) s3
      in (\<lparr>s_setup = setup, s_remove = remov, s_uninstall = None,
           s_update = updat, s_check = chk\<rparr>, s4))"

datatype script_result = ExitCode int | Succeeded bool

definition succeeded :: "script_result \<Rightarrow> bool" where
  \<comment> \<open>the truth value of what \<open>run_script\<close> returns\<close>
  "succeeded r = (case r of ExitCode c \<Rightarrow> c \<noteq> 0 | Succeeded b \<Rightarrow> b)"

definition run_script ::
  "env \<Rightarrow> string \<Rightarrow> string \<Rightarrow> bool \<Rightarrow> state \<Rightarrow> script_result \<times> state" where
  "run_script e script_path repo_path return_exit_code s =
     (let s1 = (if shell_style script_path then chmod_755 e script_path s else s);
          cmd = (if path_suffix script_path = ''.py'' then [sys_executable e, script_path]
                 else [''bash'', script_path]);
          (r, s2) = run e cmd (Some repo_path) s1
      in (case r of
            Exit rc out err \<Rightarrow>
              (let s3 = (if out \<noteq> [] then emit (Print out) s2 else s2);
                   s4 = (if err \<noteq> [] \<and> rc \<noteq> 0 then emit (PrintErr err) s3 else s3)
               in (if return_exit_code then ExitCode rc else Succeeded (rc = 0), s4))
          | Raise err msg \<Rightarrow>
              (if return_exit_code then ExitCode 255 else Succeeded False,
               emit (PrintErr (''Error running script '' @ script_path @ '': '' @ msg)) s2)))"


section \<open>Lifecycle: \<open>remove\<close> and \<open>update\<close>\<close>

definition run_removal_hook :: "env \<Rightarrow> installed_record \<Rightarrow> string \<Rightarrow> state \<Rightarrow> state" where
  \<comment> \<open>the block of \<open>remove\<close> under \<open>if not skip_uninstall\<close>\<close>
  "run_removal_hook e repo_info repo_path s =
     (let (found, s1) = check_scripts e repo_path s;
          remove_script = (case s_remove found of Some p \<Rightarrow> Some p | None \<Rightarrow> s_uninstall found)
      in (case remove_script of
            Some p \<Rightarrow>
              snd (run_script e p repo_path False (emit (Print (''Running removal script: '' @ p)) s1))
          | None \<Rightarrow>
              if nonempty (rec_remove_script repo_info) then
                (let p = the (rec_remove_script repo_info)
                 in if path_exists (files s1) p
                    then snd (run_script e p repo_path False
                                (emit (Print (''Running removal script: '' @ p)) s1))
                    else s1)
              else s1))"

definition remove :: "env \<Rightarrow> string \<Rightarrow> bool \<Rightarrow> state \<Rightarrow> bool \<times> state" where
  "remove e name skip_uninstall s =
     (case map_of (installed s) name of
        None \<Rightarrow> (False, emit (Print (''Error: '' @ quoted name @ '' is not installed'')) s)
      | Some repo_info \<Rightarrow>
          (let repo_path = rec_path repo_info
           in if \<not> path_exists (files s) repo_path then
                (let s1 = emit (Print (''Warning: Installation path '' @ repo_path
                                        @ '' does not exist'')) s;
                     s2 = s1\<lparr>installed := reg_delete name (installed s1)\<rparr>
                 in (True, save_installed s2))
              else
                (let s1 = (if skip_uninstall then s else run_removal_hook e repo_info repo_path s);
                     (failure, s2) = rmtree e repo_path s1
                 in (case failure of
                       Some msg \<Rightarrow>
                         (False, emit (PrintErr (''Error removing directory: '' @ msg)) s2)
                     | None \<Rightarrow>
                         (let s3 = emit (Print (''Removed '' @ repo_path)) s2;
                              s4 = s3\<lparr>installed := reg_delete name (installed s3)\<rparr>;
                              s5 = save_installed s4
                          in (True, emit (Print (''Successfully removed '' @ quoted name)) s5))))))"

text \<open>
  A step that can raise returns the exception, with its text, on the left;
  \<open>and_then\<close> runs the next step when there was none.
\<close>

type_synonym exn = "py_error \<times> string"

definition and_then ::
  "('x + 'a) \<times> state \<Rightarrow> ('a \<Rightarrow> state \<Rightarrow> ('x + 'b) \<times> state) \<Rightarrow> ('x + 'b) \<times> state" where
  "and_then m f = (case fst m of Inl x \<Rightarrow> (Inl x, snd m) | Inr a \<Rightarrow> f a (snd m))"

definition cpe_text :: "env \<Rightarrow> string list \<Rightarrow> int \<Rightarrow> string" where
  \<comment> \<open>\<open>str\<close> of a \<open>CalledProcessError\<close>, for arguments that print as they are: a
      negative return code is the number of the signal that ended the process, printed
      with the platform's name for it (\<open>signal_name\<close>) when it has one\<close>
  "cpe_text e argv rc =
     (let cmd = ''Command '' @ quoted (''['' @ join_with '', '' (map quoted argv) @ '']'')
      in if rc < 0 then
           (case signal_name e (nat (- rc)) of
              Some nm \<Rightarrow>
                cmd @ '' died with <Signals.'' @ nm @ '': '' @ str_nat (nat (- rc)) @ ''>.''
            | None \<Rightarrow> cmd @ '' died with unknown signal '' @ str_nat (nat (- rc)) @ ''.'')
         else cmd @ '' returned non-zero exit status '' @ str_int rc @ ''.'')"

definition run_output ::
  "env \<Rightarrow> string list \<Rightarrow> string option \<Rightarrow> state \<Rightarrow> (exn + int \<times> string \<times> string) \<times> state" where
  \<comment> \<open>\<open>subprocess.run\<close> without \<open>check\<close>\<close>
  "run_output e argv cwd s =
     (let (r, s1) = run e argv cwd s
      in (case r of Exit rc out err \<Rightarrow> (Inr (rc, out, err), s1)
                  | Raise x msg \<Rightarrow> (Inl (x, msg), s1)))"

definition run_checked ::
  "env \<Rightarrow> string list \<Rightarrow> string option \<Rightarrow> state \<Rightarrow> (exn + int \<times> string \<times> string) \<times> state" where
  \<comment> \<open>\<open>subprocess.run(..., check=True)\<close>\<close>
  "run_checked e argv cwd s =
     (let (r, s1) = run e argv cwd s
      in (case r of
            Exit rc out err \<Rightarrow>
              if rc = 0 then (Inr (rc, out, err), s1)
              else (Inl (CalledProcessError, cpe_text e argv rc), s1)
          | Raise x msg \<Rightarrow> (Inl (x, msg), s1)))"

definition branch_info :: "string option \<Rightarrow> string" where
  "branch_info branch = (if nonempty branch then '' (branch: '' @ the branch @ '')'' else [])"

definition remote_ref_of :: "string option \<Rightarrow> string" where
  "remote_ref_of branch = (if nonempty branch then ''origin/'' @ the branch else ''origin/HEAD'')"

definition decide_update ::
  "env \<Rightarrow> string \<Rightarrow> string \<Rightarrow> string \<Rightarrow> state \<Rightarrow> (exn + bool) \<times> state" where
  \<comment> \<open>the value of \<open>updates_available\<close>: from the check hook when there is one, from
      the two commits otherwise\<close>
  "decide_update e repo_path current_commit remote_commit s =
     (let (found, s1) = check_scripts e repo_path s
      in (case s_check found of
            Some chk \<Rightarrow>
              (let s2 = emit (Print (''Running check script: '' @ chk)) s1;
                   (res, s3) = run_script e chk repo_path True s2;
                   check_exit_code = (case res of ExitCode c \<Rightarrow> c | Succeeded b \<Rightarrow> 0)
               in if check_exit_code = 1 then (Inr True, s3)
                  else if check_exit_code = 0 then (Inr False, s3)
                  else (Inr (current_commit \<noteq> remote_commit),
                        emit (PrintErr (''Warning: Check script returned error code ''
                                        @ str_int check_exit_code)) s3))
          | None \<Rightarrow> (Inr (current_commit \<noteq> remote_commit), s1)))"

definition updates_available ::
  "env \<Rightarrow> string \<Rightarrow> string option \<Rightarrow> state \<Rightarrow> (exn + bool) \<times> state" where
  \<comment> \<open>the two \<open>rev-parse\<close> calls, then the decision\<close>
  "updates_available e repo_path branch s =
     and_then (run_output e [''git'', ''rev-parse'', ''HEAD''] (Some repo_path) s)
       (\<lambda>head s1.
     and_then (run_output e [''git'', ''rev-parse'', remote_ref_of branch] (Some repo_path) s1)
       (\<lambda>remote s2.
          decide_update e repo_path (strip (fst (snd head))) (strip (fst (snd remote))) s2))"

definition sync_worktree ::
  "env \<Rightarrow> string \<Rightarrow> string \<Rightarrow> string option \<Rightarrow> state \<Rightarrow> (exn + unit) \<times> state" where
  \<comment> \<open>checkout of the branch, then reset and clean, or pull\<close>
  "sync_worktree e name repo_path branch s =
     and_then (if nonempty branch
               then run_checked e [''git'', ''checkout'', the branch] (Some repo_path) s
               else (Inr (0, [], []), s))
       (\<lambda>_ s1.
     and_then (run_output e [''git'', ''status'', ''--porcelain''] (Some repo_path) s1)
       (\<lambda>status s2.
          if strip (fst (snd status)) \<noteq> [] then
            and_then (run_checked e [''git'', ''reset'', ''--hard'', remote_ref_of branch]
                        (Some repo_path)
                        (emit (Print (''Warning: Local changes detected in '' @ quoted name
                                      @ ''. Resetting to remote state...'')) s2))
              (\<lambda>_ s3.
            and_then (run_checked e [''git'', ''clean'', ''-fd''] (Some repo_path) s3)
              (\<lambda>_ s4. (Inr (), s4)))
          else
            and_then (run_checked e [''git'', ''pull''] (Some repo_path) s2)
              (\<lambda>_ s3. (Inr (), s3))))"

definition refresh_hooks :: "env \<Rightarrow> string \<Rightarrow> string \<Rightarrow> state \<Rightarrow> state" where
  \<comment> \<open>the update or setup hook, then the stored hook paths\<close>
  "refresh_hooks e name repo_path s =
     (let (found, s1) = check_scripts e repo_path s;
          s2 = (case s_update found of
                  Some u \<Rightarrow>
                    (let (res, t) = run_script e u repo_path False
                                      (emit (Print (''Running update script: '' @ u)) s1)
                     in if succeeded res then t
                        else emit (Print ''Warning: Update script failed, but repository was updated.'') t)
                | None \<Rightarrow>
                    (case s_setup found of
                       Some st \<Rightarrow> snd (run_script e st repo_path False
                                         (emit (Print (''Re-running setup script: '' @ st)) s1))
                     | None \<Rightarrow> s1));
          s3 = (case (s_update found, map_of (installed s2) name) of
                  (Some u, Some r) \<Rightarrow>
                    s2\<lparr>installed := reg_update name (r\<lparr>rec_update_script := Some u\<rparr>) (installed s2)\<rparr>
                | _ \<Rightarrow> s2);
          s4 = (case (s_check found, map_of (installed s3) name) of
                  (Some c, Some r) \<Rightarrow>
                    s3\<lparr>installed := reg_update name (r\<lparr>rec_check_script := Some c\<rparr>) (installed s3)\<rparr>
                | _ \<Rightarrow> s3)
      in if s_update found \<noteq> None \<or> s_check found \<noteq> None then save_installed s4 else s4)"

definition update_steps ::
  "env \<Rightarrow> string \<Rightarrow> string \<Rightarrow> string option \<Rightarrow> bool \<Rightarrow> state \<Rightarrow> (exn + bool) \<times> state" where
  \<comment> \<open>the body of the \<open>try\<close> statement\<close>
  "update_steps e name repo_path branch check_only s =
     and_then (run_checked e [''git'', ''fetch'', ''origin''] (Some repo_path) s)
       (\<lambda>_ s1.
     and_then (updates_available e repo_path branch s1)
       (\<lambda>available s2.
          if \<not> available then
            (Inr True, emit (Print (quoted name @ '' is already up to date'')) s2)
          else if check_only then
            (Inr True, emit (Print (''Update available for '' @ quoted name)) s2)
          else
            and_then (sync_worktree e name repo_path branch s2)
              (\<lambda>_ s3.
                 (Inr True,
                  emit (Print (''Successfully updated '' @ quoted name @ branch_info branch))
                    (refresh_hooks e name repo_path s3)))))"

definition update_named :: "env \<Rightarrow> string \<Rightarrow> bool \<Rightarrow> state \<Rightarrow> (py_error + bool) \<times> state" where
  \<comment> \<open>\<open>update(name, check_only)\<close> for a name that is not empty\<close>
  "update_named e name check_only s =
     (case map_of (installed s) name of
        None \<Rightarrow> (Inr False, emit (Print (''Error: '' @ quoted name @ '' is not installed'')) s)
      | Some repo_info \<Rightarrow>
          (let repo_path = rec_path repo_info
           in if \<not> path_exists (files s) repo_path then
                (Inr False, emit (Print (''Error: Installation path '' @ repo_path
                                         @ '' does not exist'')) s)
              else
                (let branch = rec_branch repo_info;
                     s1 = emit (Print (if check_only then ''Checking for updates: '' @ name @ ''...''
                                       else ''Updating '' @ name @ ''...'')) s;
                     (res, s2) = update_steps e name repo_path branch check_only s1
                 in (case res of
                       Inr ok \<Rightarrow> (Inr ok, s2)
                     | Inl (x, msg) \<Rightarrow>
                         if x = CalledProcessError then
                           (Inr False, emit (PrintErr (''Error updating '' @ quoted name
                                                       @ '': '' @ msg)) s2)
                         else (Inl x, s2)))))"

text \<open>
  The update of all packages calls \<open>update(name)\<close> for every key of the registry,
  with \<open>check_only\<close> left at its default. An empty key is no name for \<open>update\<close>: the
  call starts the update of all packages again, one level deeper, from the first key,
  and so on until the interpreter's recursion limit. \<open>update_all\<close> has the number of
  levels that are left; where the interpreter gives up is a parameter of the
  environment (\<open>recursion_limit\<close>), and the model raises \<open>RecursionError\<close> at the call
  that would enter the level after the last.
\<close>

function update_all :: "env \<Rightarrow> nat \<Rightarrow> state \<Rightarrow> (py_error + bool) \<times> state"
  and update_each ::
    "env \<Rightarrow> nat \<Rightarrow> string list \<Rightarrow> bool \<Rightarrow> state \<Rightarrow> (py_error + bool) \<times> state" where
  "update_all e depth s =
     (if installed s = [] then (Inr True, emit (Print ''No packages installed.'') s)
      else update_each e depth (map fst (installed s)) True
             (emit (Print (''Updating '' @ str_nat (length (installed s)) @ '' package(s)...'')) s))"
| "update_each e depth [] success s = (Inr success, s)"
| "update_each e depth (name # names) success s =
     (case (if name \<noteq> [] then update_named e name False s
            else (case depth of
                    0 \<Rightarrow> (Inl RecursionError, s)
                  | Suc d \<Rightarrow> update_all e d s)) of
        (Inl x, s1) \<Rightarrow> (Inl x, s1)
      | (Inr ok, s1) \<Rightarrow> update_each e depth names (success \<and> ok) s1)"
  by pat_completeness auto
termination
  by (relation "measures [\<lambda>a. case a of Inl (e, d, s) \<Rightarrow> d | Inr (e, d, ns, b, s) \<Rightarrow> d,
                          \<lambda>a. case a of Inl (e, d, s) \<Rightarrow> 1 | Inr (e, d, ns, b, s) \<Rightarrow> 0,
                          \<lambda>a. case a of Inl (e, d, s) \<Rightarrow> 0 | Inr (e, d, ns, b, s) \<Rightarrow> length ns]")
     auto

definition update :: "env \<Rightarrow> string option \<Rightarrow> bool \<Rightarrow> state \<Rightarrow> (py_error + bool) \<times> state" where
  "update e name check_only s =
     (if nonempty name then update_named e (the name) check_only s
      else update_all e (recursion_limit e) s)"


section \<open>Dependency resolver\<close>

text \<open>
  \<open>check_system_dependencies\<close> probes the host for commands and packages; the model
  takes its result from the environment: the missing packages and the install method
  for the \<open>system\<close> section of a manifest, or the exception it raises.
\<close>

record dep_info =
  dep_name :: string
  dep_url :: string
  dep_branch :: "string option"
  dep_alternatives :: "json list option"

record dep_acc =
  acc_missing :: "string list"
  acc_info :: "dep_info list"
  acc_system_only :: "string list"

definition descriptor_name :: "env \<Rightarrow> string list \<Rightarrow> py_error + string" where
  \<comment> \<open>the name of a descriptor \<open>url,branch,name\<close> from its fields: the declared name, or
      the repository name of the URL\<close>
  "descriptor_name e parts =
     (if length parts > 2 \<and> parts ! 2 \<noteq> [] then Inr (parts ! 2)
      else (case parse_repo_url (netloc_invalid e) (hd parts) of
              Inl x \<Rightarrow> Inl x
            | Inr (full_url, usr, repo_name) \<Rightarrow> Inr repo_name))"

definition descriptor_info :: "env \<Rightarrow> string \<Rightarrow> py_error + dep_info" where
  \<comment> \<open>name, URL and branch of a descriptor, as both branches of the source compute them\<close>
  "descriptor_info e d =
     (let parts = split_fields d
      in (case descriptor_name e parts of
            Inl x \<Rightarrow> Inl x
          | Inr nm \<Rightarrow> Inr \<lparr>dep_name = nm, dep_url = hd parts,
                           dep_branch = field_or_none parts 1, dep_alternatives = None\<rparr>))"

definition requires_system :: "filesystem \<Rightarrow> registry \<Rightarrow> string \<Rightarrow> py_error + bool" where
  \<comment> \<open>for an installed dependency: does its own manifest declare \<open>system_only\<close>\<close>
  "requires_system fs reg nm =
     (case map_of reg nm of
        None \<Rightarrow> Inl KeyError
      | Some r \<Rightarrow>
          (let dep_json = fst (load_gitpm_json fs (rec_path r))
           in if truthy dep_json then
                (case py_get dep_json ''system_only'' (JBool False) of
                   Inl x \<Rightarrow> Inl x
                 | Inr v \<Rightarrow> Inr (truthy v))
              else Inr False))"

definition note_scope :: "env \<Rightarrow> filesystem \<Rightarrow> registry \<Rightarrow> dep_acc \<Rightarrow> string \<Rightarrow> py_error + dep_acc" where
  \<comment> \<open>an installed dependency: in user scope its name is recorded when it requires the
      system scope\<close>
  "note_scope e fs reg acc nm =
     (if system e then Inr acc
      else (case requires_system fs reg nm of
              Inl x \<Rightarrow> Inl x
            | Inr b \<Rightarrow> Inr (if b then acc\<lparr>acc_system_only := acc_system_only acc @ [nm]\<rparr>
                             else acc)))"

fun find_installed_alternative :: "env \<Rightarrow> registry \<Rightarrow> json list \<Rightarrow> py_error + string option" where
  \<comment> \<open>the loop over the alternatives, up to its \<open>break\<close>: the name of the first one that
      is installed\<close>
  "find_installed_alternative e reg [] = Inr None"
| "find_installed_alternative e reg (dep # deps) =
     (case dep of
        JStr d \<Rightarrow>
          (case descriptor_name e (split_fields d) of
             Inl x \<Rightarrow> Inl x
           | Inr nm \<Rightarrow> if map_of reg nm \<noteq> None then Inr (Some nm)
                        else find_installed_alternative e reg deps)
      | _ \<Rightarrow> Inl AttributeError)"

definition add_missing :: "dep_acc \<Rightarrow> dep_info \<Rightarrow> dep_acc" where
  "add_missing acc info =
     acc\<lparr>acc_missing := acc_missing acc @ [dep_name info], acc_info := acc_info acc @ [info]\<rparr>"

definition check_gitpm_entry ::
  "env \<Rightarrow> filesystem \<Rightarrow> registry \<Rightarrow> dep_acc \<Rightarrow> json \<Rightarrow> py_error + dep_acc" where
  \<comment> \<open>the body of the loop of \<open>check_gitpm_dependencies\<close> for one entry\<close>
  "check_gitpm_entry e fs reg acc dep_entry =
     (case dep_entry of
        JArr alts \<Rightarrow>
          (case find_installed_alternative e reg alts of
             Inl x \<Rightarrow> Inl x
           | Inr (Some nm) \<Rightarrow> note_scope e fs reg acc nm
           | Inr None \<Rightarrow>
               (case alts of
                  [] \<Rightarrow> Inl IndexError
                | JStr d # rest \<Rightarrow>
                    (case descriptor_info e d of
                       Inl x \<Rightarrow> Inl x
                     | Inr info \<Rightarrow> Inr (add_missing acc (info\<lparr>dep_alternatives := Some alts\<rparr>)))
                | _ # rest \<Rightarrow> Inl AttributeError))
      | JStr d \<Rightarrow>
          (case descriptor_info e d of
             Inl x \<Rightarrow> Inl x
           | Inr info \<Rightarrow>
               if map_of reg (dep_name info) = None then Inr (add_missing acc info)
               else note_scope e fs reg acc (dep_name info))
      | _ \<Rightarrow> Inr acc)"

fun check_gitpm_entries ::
  "env \<Rightarrow> filesystem \<Rightarrow> registry \<Rightarrow> dep_acc \<Rightarrow> json list \<Rightarrow> py_error + dep_acc" where
  "check_gitpm_entries e fs reg acc [] = Inr acc"
| "check_gitpm_entries e fs reg acc (dep_entry # rest) =
     (case check_gitpm_entry e fs reg acc dep_entry of
        Inl x \<Rightarrow> Inl x
      | Inr acc' \<Rightarrow> check_gitpm_entries e fs reg acc' rest)"

definition check_gitpm_dependencies ::
  "env \<Rightarrow> filesystem \<Rightarrow> registry \<Rightarrow> json
     \<Rightarrow> py_error + (bool \<times> string list \<times> dep_info list \<times> string list)" where
  \<comment> \<open>\<open>(all_satisfied, missing_packages, dependency_info, system_only_deps)\<close>\<close>
  "check_gitpm_dependencies e fs reg gitpm_deps =
     (case py_iter gitpm_deps of
        Inl x \<Rightarrow> Inl x
      | Inr entries \<Rightarrow>
          (case check_gitpm_entries e fs reg
                  \<lparr>acc_missing = [], acc_info = [], acc_system_only = []\<rparr> entries of
             Inl x \<Rightarrow> Inl x
           | Inr acc \<Rightarrow> Inr (acc_missing acc = [], acc_missing acc, acc_info acc,
                             acc_system_only acc)))"

record dep_report =
  all_satisfied :: bool
  missing_system :: "string list"
  missing_gitpm :: "string list"
  can_install_system :: bool
  gitpm_dep_info :: "dep_info list"
  json_error :: "string option"

definition report :: "bool \<Rightarrow> string option \<Rightarrow> dep_report" where
  \<comment> \<open>the early returns: nothing missing, nothing to install\<close>
  "report ok err = \<lparr>all_satisfied = ok, missing_system = [], missing_gitpm = [],
                     can_install_system = False, gitpm_dep_info = [], json_error = err\<rparr>"

definition system_section ::
  "env \<Rightarrow> json \<Rightarrow> state \<Rightarrow> (py_error + string list \<times> bool) \<times> state" where
  \<comment> \<open>the missing system packages and whether they can be installed\<close>
  "system_section e deps s =
     (case py_in ''system'' deps of
        Inl x \<Rightarrow> (Inl x, s)
      | Inr False \<Rightarrow> (Inr ([], False), s)
      | Inr True \<Rightarrow>
          (case py_getitem deps ''system'' of
             Inl x \<Rightarrow> (Inl x, s)
           | Inr sysd \<Rightarrow>
               (case system_deps e sysd of
                  Inl x \<Rightarrow> (Inl x, s)
                | Inr (missing, install_method) \<Rightarrow>
                    if missing \<noteq> [] \<and> system e then (Inr (missing, True), s)
                    else if missing \<noteq> [] then
                      (let (r, s1) = run e [''sudo'', ''-n'', ''true''] None s
                       in (case r of
                             Exit rc out err \<Rightarrow> (Inr (missing, rc = 0 \<or> is_root e), s1)
                           | Raise x msg \<Rightarrow> (Inl x, s1)))
                    else (Inr (missing, False), s))))"

definition gitpm_section ::
  "env \<Rightarrow> filesystem \<Rightarrow> registry \<Rightarrow> json
     \<Rightarrow> py_error + (string list \<times> dep_info list \<times> string list)" where
  \<comment> \<open>missing peer dependencies, their descriptions, and the installed ones that
      require the system scope\<close>
  "gitpm_section e fs reg deps =
     (case py_in ''gitpm'' deps of
        Inl x \<Rightarrow> Inl x
      | Inr False \<Rightarrow> Inr ([], [], [])
      | Inr True \<Rightarrow>
          (case py_getitem deps ''gitpm'' of
             Inl x \<Rightarrow> Inl x
           | Inr g \<Rightarrow>
               (case check_gitpm_dependencies e fs reg g of
                  Inl x \<Rightarrow> Inl x
                | Inr (ok, missing, info, system_only) \<Rightarrow> Inr (missing, info, system_only))))"

definition scope_verdict ::
  "env \<Rightarrow> json \<Rightarrow> string list \<Rightarrow> bool \<Rightarrow> string list \<Rightarrow> dep_info list \<Rightarrow> string list
     \<Rightarrow> py_error + dep_report" where
  \<comment> \<open>the two scope checks and the final report\<close>
  "scope_verdict e gitpm_json missing_sys can_install missing_g info system_only_deps =
     (case py_get gitpm_json ''system_only'' (JBool False) of
        Inl x \<Rightarrow> Inl x
      | Inr so \<Rightarrow>
          if truthy so \<and> \<not> system e then
            Inr (report False
                   (Some ''This package requires system-wide installation (use --system flag)''))
          else if system_only_deps \<noteq> [] \<and> \<not> system e then
            Inr (report False
                   (Some (''Installed dependencies require system install: ''
                          @ join_with '', '' system_only_deps
                          @ ''. This package must be installed with --system flag.'')))
          else
            Inr \<lparr>all_satisfied = (missing_sys = [] \<and> missing_g = []),
                 missing_system = missing_sys, missing_gitpm = missing_g,
                 can_install_system = can_install, gitpm_dep_info = info,
                 json_error = None\<rparr>)"

definition check_dependencies ::
  "env \<Rightarrow> string \<Rightarrow> state \<Rightarrow> (py_error + dep_report) \<times> state" where
  "check_dependencies e repo_path s =
     (let (gitpm_json, err) = load_gitpm_json (files s) repo_path
      in if nonempty err then (Inr (report False err), s)
         else if \<not> truthy gitpm_json then (Inr (report True None), s)
         else
           (case py_in ''dependencies'' gitpm_json of
              Inl x \<Rightarrow> (Inl x, s)
            | Inr False \<Rightarrow> (Inr (report True None), s)
            | Inr True \<Rightarrow>
                (case py_getitem gitpm_json ''dependencies'' of
                   Inl x \<Rightarrow> (Inl x, s)
                 | Inr deps \<Rightarrow>
                     (case system_section e deps s of
                        (Inl x, s1) \<Rightarrow> (Inl x, s1)
                      | (Inr (missing_sys, can_install), s1) \<Rightarrow>
                          (case gitpm_section e (files s1) (installed s1) deps of
                             Inl x \<Rightarrow> (Inl x, s1)
                           | Inr (missing_g, info, system_only_deps) \<Rightarrow>
                               (scope_verdict e gitpm_json missing_sys can_install
                                  missing_g info system_only_deps, s1))))))"

section \<open>Installing a peer dependency: the scope check before it\<close>

text \<open>
  Inside \<open>install\<close>, before a missing peer dependency is installed, its repository
  is cloned into a second temporary directory and its manifest is read; in user
  scope a dependency that declares \<open>system_only\<close> ends the installation of the
  package. \<open>dependency_scope_guard\<close> is this block of \<open>install\<close>, from the call of
  \<open>check_repo_compatibility\<close> to the end of its \<open>try\<close> statement: \<open>Inr False\<close>
  stands for the \<open>return False\<close> of \<open>install\<close>, \<open>Inr True\<close> for going on to
  install the dependency, \<open>Inl\<close> for an exception that leaves \<open>install\<close>. As in
  \<open>check_repo_compatibility\<close>, the temporary directory is outside the tracked file
  system and the clone holds the working tree that the environment gives for the URL
  and the branch. \<open>shutil.rmtree\<close> with \<open>ignore_errors=True\<close> is \<open>rmtree\<close> whose
  failure is dropped.
\<close>

definition rmtree_ignore_errors :: "env \<Rightarrow> string \<Rightarrow> state \<Rightarrow> state" where
  "rmtree_ignore_errors e p s = snd (rmtree e p s)"

definition dependency_scope_guard ::
  "env \<Rightarrow> string \<Rightarrow> string \<Rightarrow> string option \<Rightarrow> bool \<Rightarrow> string \<Rightarrow> state
     \<Rightarrow> (py_error + bool) \<times> state" where
  "dependency_scope_guard e d_name d_url d_branch cloned repo_path s =
     (let ((is_compatible, compat_msg), s1) = check_repo_compatibility e d_url d_branch s
      in if \<not> is_compatible then (Inr True, s1)
         else
           (let temp_dir = mkdtemp e ''gitpm_check_dep_'';
                temp_repo_path = path_join temp_dir ''repo'';
                (r1, s2) = run e (shallow_clone_cmd d_url temp_repo_path d_branch) None s1
            in (case r1 of
                  Raise x msg \<Rightarrow> (Inl x, emit (RmTree temp_dir) s2)
                | Exit rc1 out1 err1 \<Rightarrow>
                    (let (r2, s3) = run e [''git'', ''checkout'', ''HEAD'', ''--'']
                                      (Some temp_repo_path) s2
                     in (case r2 of
                           Raise x msg \<Rightarrow> (Inl x, emit (RmTree temp_dir) s3)
                         | Exit rc2 out2 err2 \<Rightarrow>
                             (let clone = (if rc1 = 0
                                           then mount temp_repo_path (worktree e d_url d_branch)
                                           else []);
                                  dep_json = fst (load_gitpm_json clone temp_repo_path)
                              in (case (if truthy dep_json
                                        then py_get dep_json ''system_only'' (JBool False)
                                        else Inr (JBool False)) of
                                    Inl x \<Rightarrow> (Inl x, emit (RmTree temp_dir) s3)
                                  | Inr v \<Rightarrow>
                                      if truthy dep_json \<and> truthy v \<and> \<not> system e then
                                        (let s4 = emit (PrintErr (''Error: Dependency '' @ quoted d_name
                                                     @ '' requires system-wide installation'')) s3;
                                             s5 = emit (PrintErr (''Please install this package with --system flag, or install ''
                                                     @ quoted d_name @ '' as system first'')) s4;
                                             s6 = emit (RmTree temp_dir) s5;
                                             s7 = (if cloned \<and> path_exists (files s6) repo_path
                                                   then emit (PrintErr (''Cleaned up cloned directory: ''
                                                                        @ repo_path))
                                                          (rmtree_ignore_errors e repo_path s6)
                                                   else s6)
                                         in (Inr False, emit (RmTree temp_dir) s7))
                                      else (Inr True, emit (RmTree temp_dir) s3))))))))"



section \<open>Vocabulary of the statements\<close>

text \<open>The references that an \<open>ls-remote\<close> output lists: the second tab-separated field
  of every line that is not blank and has one.\<close>

definition remote_refs :: "string \<Rightarrow> string list" where
  "remote_refs out =
     map (\<lambda>line. split_on (CHR 0x09) line ! 1)
       (filter (\<lambda>line. strip line \<noteq> [] \<and> length (split_on (CHR 0x09) line) \<ge> 2)
          (split_on (CHR 0x0A) out))"

text \<open>
  Two file systems that differ at most in executable bits, which only get set;
  a later state whose trace extends the earlier one by events of one kind; and a
  step that leaves the registry, its file and the pending input alone, changes
  no file but for executable bits, and adds events of one kind only.
\<close>

definition same_but_mode :: "string \<times> node \<Rightarrow> string \<times> node \<Rightarrow> bool" where
  "same_but_mode a b =
     (fst a = fst b \<and>
      (case (snd a, snd b) of
         (Dir, Dir) \<Rightarrow> True
       | (File x l, File x' l') \<Rightarrow> l = l' \<and> (x' \<or> \<not> x)
       | _ \<Rightarrow> False))"

definition chmod_only :: "filesystem \<Rightarrow> filesystem \<Rightarrow> bool" where
  "chmod_only fs fs' = list_all2 same_but_mode fs fs'"

definition only_events :: "(event \<Rightarrow> bool) \<Rightarrow> state \<Rightarrow> state \<Rightarrow> bool" where
  "only_events P s s' =
     (take (length (trace s)) (trace s') = trace s
      \<and> list_all P (drop (length (trace s)) (trace s')))"

definition quiet :: "(event \<Rightarrow> bool) \<Rightarrow> state \<Rightarrow> state \<Rightarrow> bool" where
  "quiet P s s' =
     (installed s' = installed s \<and> saved s' = saved s \<and> stdin s' = stdin s
      \<and> chmod_only (files s) (files s') \<and> only_events P s s')"

text \<open>
  The names that hook discovery looks for in an installation directory, in the order
  of \<open>script_names\<close>; the command that runs a hook; the events that a step added to
  the trace; and the message of an update that only checks.
\<close>

definition hook_candidates :: "env \<Rightarrow> string list" where
  "hook_candidates e =
     (let scope = (if system e then ''system'' else ''user'')
      in hook_names ''setup'' ''install'' scope @ hook_names ''remove'' ''uninstall'' scope
         @ hook_names ''update'' ''upgrade'' scope @ hook_names ''check'' ''check-updates'' scope)"

definition hook_command :: "env \<Rightarrow> string \<Rightarrow> string list" where
  "hook_command e p = (if path_suffix p = ''.py'' then [sys_executable e, p] else [''bash'', p])"

definition new_events :: "state \<Rightarrow> state \<Rightarrow> event list" where
  "new_events s s' = drop (length (trace s)) (trace s')"

definition availability :: "string \<Rightarrow> bool \<Rightarrow> event" where
  "availability name available =
     Print (if available then ''Update available for '' @ quoted name
            else quoted name @ '' is already up to date'')"

text \<open>
  The events of an update that only checks: output, making a hook candidate of the
  installation directory executable, and in the installation directory
  \<open>git fetch origin\<close>, the two \<open>git rev-parse\<close> calls and the run of a check hook.
\<close>

definition check_only_event :: "env \<Rightarrow> string \<Rightarrow> string option \<Rightarrow> event \<Rightarrow> bool" where
  "check_only_event e repo_path branch ev =
     (case ev of
        Print x \<Rightarrow> True
      | PrintErr x \<Rightarrow> True
      | Chmod p \<Rightarrow> (\<exists>nm \<in> set (hook_candidates e). p = path_join repo_path nm)
      | Run argv cwd \<Rightarrow>
          cwd = Some repo_path \<and>
          (argv = [''git'', ''fetch'', ''origin'']
           \<or> argv = [''git'', ''rev-parse'', ''HEAD'']
           \<or> argv = [''git'', ''rev-parse'', remote_ref_of branch]
           \<or> (\<exists>nm \<in> set (hook_names ''check'' ''check-updates''
                                (if system e then ''system'' else ''user'')).
                 argv = [''bash'', path_join repo_path nm]
                 \<or> argv = [sys_executable e, path_join repo_path nm]))
      | RmTree p \<Rightarrow> False
      | SaveInstalled \<Rightarrow> False
      | Prompt x \<Rightarrow> False)"


section \<open>A small world for the examples\<close>

text \<open>
  User scope; one catalog line; the package \<open>tool\<close> installed at \<open>/apps/tool\<close>, with a
  \<open>setup.sh\<close> that is not executable; a remote with the branch \<open>main\<close> and the tag
  \<open>v1\<close>; every other command succeeds silently.
\<close>

definition ex_record :: installed_record where
  "ex_record =
     \<lparr>rec_url = ''https://example.com/acme/tool.git'', rec_user = ''acme'',
      rec_name = ''tool'', rec_repo_name = ''tool'', rec_branch = None,
      rec_path = ''/apps/tool'', rec_setup_script = None, rec_remove_script = None,
      rec_update_script = None, rec_check_script = None\<rparr>"

definition ex_refs :: string where
  "ex_refs = ''a1'' @ [CHR 0x09] @ ''refs/heads/main'' @ [CHR 0x0A]
             @ ''b2'' @ [CHR 0x09] @ ''refs/tags/v1'' @ [CHR 0x0A]"

definition ex_proc :: "string list \<Rightarrow> string option \<Rightarrow> proc_result" where
  "ex_proc argv cwd = (if take 2 argv = [''git'', ''ls-remote''] then Exit 0 ex_refs [] else Exit 0 [] [])"

definition ex_env :: env where
  "ex_env =
     \<lparr>system = False, is_root = False, apps_dir = ''/apps'', distro = ''Debian'',
      sys_executable = ''/usr/bin/python3'', netloc_invalid = unbalanced_brackets,
      config_files = [(''/home/u/.config/gitpm/repos.conf'',
                       Some [''https://example.com/acme/tool.git,,tool''])],
      proc = ex_proc, worktree = (\<lambda>url branch. []), chmod_fails = (\<lambda>p. False),
      rmtree_error = (\<lambda>p. None), mkdtemp = (\<lambda>p. ''/tmp/'' @ p @ ''0''),
      system_deps = (\<lambda>j. Inr ([], [])),
      signal_name = (\<lambda>n. if n = 9 then Some ''SIGKILL'' else None),
      recursion_limit = 3\<rparr>"

definition ex_state :: state where
  "ex_state =
     \<lparr>installed = [(''tool'', ex_record)], saved = [(''tool'', ex_record)],
      files = [(''/apps/tool'', Dir), (''/apps/tool/setup.sh'', File False (ReadError []))],
      stdin = [], trace = []\<rparr>"

text \<open>
  Two variations: the package with an executable \<open>check.sh\<close> that exits with 1, and
  a machine on which \<open>git fetch\<close> fails.
\<close>

definition ex_hook_state :: state where
  "ex_hook_state =
     ex_state\<lparr>files := files ex_state @ [(''/apps/tool/check.sh'', File True (ReadError []))]\<rparr>"

definition ex_hook_env :: env where
  "ex_hook_env =
     ex_env\<lparr>proc := (\<lambda>argv cwd. if argv = [''bash'', ''/apps/tool/check.sh''] then Exit 1 [] []
                                 else ex_proc argv cwd)\<rparr>"

definition ex_offline_env :: env where
  "ex_offline_env =
     ex_env\<lparr>proc := (\<lambda>argv cwd. if argv = [''git'', ''fetch'', ''origin'']
                                 then Exit 128 [] ''fatal: unable to access the remote''
                                 else ex_proc argv cwd)\<rparr>"

text \<open>
  A freshly cloned package at \<open>/apps/pkg\<close> whose \<open>gitpm.json\<close> holds the given
  manifest, with nothing installed.
\<close>

definition pkg_state :: "json \<Rightarrow> state" where
  "pkg_state manifest =
     \<lparr>installed = [], saved = [],
      files = mount ''/apps/pkg'' [(''gitpm.json'', File False (Loads manifest))],
      stdin = [], trace = []\<rparr>"

text \<open>
  A machine on which every repository holds a manifest that declares
  \<open>system_only\<close>, and on which the directory \<open>/apps/pkg\<close> cannot be removed.
\<close>

definition ex_guard_env :: env where
  "ex_guard_env =
     ex_env\<lparr>worktree := (\<lambda>url branch.
                 [(''gitpm.json'', File False (Loads (JObj [(''system_only'', JBool True)])))]),
             rmtree_error := (\<lambda>p. if p = ''/apps/pkg'' then Some ''[Errno 13] Permission denied''
                                    else None)\<rparr>"


section \<open>Facts about the string functions\<close>

lemma split_on_not_Nil: "split_on sep s \<noteq> []"
  by (induction s) (auto split: list.splits)

lemma split_on_no_sep: "p \<in> set (split_on sep s) \<Longrightarrow> sep \<notin> set p"
  by (induction s arbitrary: p) (auto split: if_splits list.splits)

lemma hd_split_on: "hd (split_on sep s) = takeWhile (\<lambda>c. c \<noteq> sep) s"
  by (induction s) (auto split: list.splits simp: split_on_not_Nil)

lemma last_dropWhile: "dropWhile P xs \<noteq> [] \<Longrightarrow> last (dropWhile P xs) = last xs"
  by (metis last_appendR takeWhile_dropWhile_id)

lemma strip_subset: "set (strip s) \<subseteq> set s"
proof
  fix x assume "x \<in> set (strip s)"
  then have "x \<in> set (dropWhile is_space (rev (dropWhile is_space s)))"
    by (simp add: strip_def)
  then have "x \<in> set (rev (dropWhile is_space s))" by (rule set_dropWhileD)
  then have "x \<in> set (dropWhile is_space s)" by simp
  then show "x \<in> set s" by (rule set_dropWhileD)
qed

lemma strip_dropWhile_Nil: "dropWhile is_space s = [] \<Longrightarrow> strip s = []"
  by (metis strip_def dropWhile.simps(1) rev.simps(1))

lemma hd_strip_dropWhile: "strip s \<noteq> [] \<Longrightarrow> hd (strip s) = hd (dropWhile is_space s)"
proof -
  assume a: "strip s \<noteq> []"
  let ?t = "dropWhile is_space s"
  have t: "?t \<noteq> []" using a strip_dropWhile_Nil by blast
  have d: "dropWhile is_space (rev ?t) \<noteq> []" using a by (simp add: strip_def)
  have "hd (strip s) = last (dropWhile is_space (rev ?t))"
    using d by (simp add: strip_def hd_rev)
  also have "\<dots> = last (rev ?t)" using d by (rule last_dropWhile)
  also have "\<dots> = hd ?t" using t by (simp add: last_rev)
  finally show ?thesis .
qed

lemma hd_strip: "strip s \<noteq> [] \<Longrightarrow> \<not> is_space (hd (strip s))"
proof -
  assume a: "strip s \<noteq> []"
  then have t: "dropWhile is_space s \<noteq> []" using strip_dropWhile_Nil by blast
  show ?thesis using hd_dropWhile[OF t] hd_strip_dropWhile[OF a] by simp
qed

lemma last_strip: "strip s \<noteq> [] \<Longrightarrow> \<not> is_space (last (strip s))"
proof -
  assume a: "strip s \<noteq> []"
  let ?t = "dropWhile is_space s"
  have d: "dropWhile is_space (rev ?t) \<noteq> []" using a by (simp add: strip_def)
  have "last (strip s) = hd (dropWhile is_space (rev ?t))"
    using d by (simp add: strip_def last_rev)
  then show ?thesis using hd_dropWhile[OF d] by simp
qed

lemma dropWhile_hd: "s \<noteq> [] \<Longrightarrow> \<not> P (hd s) \<Longrightarrow> dropWhile P s = s"
  by (cases s) auto

lemma strip_id: "s \<noteq> [] \<Longrightarrow> \<not> is_space (hd s) \<Longrightarrow> \<not> is_space (last s) \<Longrightarrow> strip s = s"
  unfolding strip_def by (simp add: dropWhile_hd hd_rev)

lemma strip_Nil: "strip [] = []"
  by (simp add: strip_def)

lemma strip_idem: "strip (strip s) = strip s"
  by (cases "strip s = []") (simp_all add: strip_Nil strip_id hd_strip last_strip)

lemma split_on_none: "sep \<notin> set s \<Longrightarrow> split_on sep s = [s]"
  by (induction s) auto

lemma split_on_append: "sep \<notin> set a \<Longrightarrow> split_on sep (a @ sep # b) = a # split_on sep b"
  by (induction a) auto

section \<open>Properties of \<open>parse_repo_url\<close>\<close>






lemma dropWhile_all: "\<forall>c\<in>set a. P c \<Longrightarrow> dropWhile P a = []"
  by (induction a) auto


lemma normalize_git_suffix:
  assumes "s \<noteq> []" "\<not> is_space (hd s)"
  shows "normalize_url (s @ ''.git'') = s"
proof -
  have "strip (s @ ''.git'') = s @ ''.git''"
    using assms by (intro strip_id) (auto simp: is_space_def)
  then show ?thesis
    by (simp add: normalize_url_def endswith_def)
qed

























lemma normalize_with_suffix:
  assumes "component repo" "b \<noteq> []" "\<not> is_space (hd (b @ repo))"
  shows "normalize_url (b @ repo @ ''.git'') = b @ repo"
  using assms normalize_git_suffix[of "b @ repo"] by simp





section \<open>Properties of the catalog line parser\<close>

lemma split_fields_clean:
  assumes "f \<in> set (split_fields line)" "f \<noteq> []"
  shows "clean_field f"
proof -
  from assms obtain p where p: "p \<in> set (split_on CHR '','' line)" "f = strip p"
    by (auto simp: split_fields_def)
  have "CHR '','' \<notin> set p" using p(1) by (rule split_on_no_sep)
  then have "CHR '','' \<notin> set f" using strip_subset[of p] p(2) by auto
  then show ?thesis using assms(2) p(2) by (simp add: clean_field_def strip_idem)
qed

lemma field_or_none_clean:
  "field_or_none (split_fields line) i = Some f \<Longrightarrow> clean_field f"
  using split_fields_clean[of f line] by (auto simp: field_or_none_def split: if_splits)

lemma clean_field_ends: "clean_field f \<Longrightarrow> \<not> is_space (hd f) \<and> \<not> is_space (last f)"
  by (metis clean_field_def hd_strip last_strip)

lemma hd_url_not_hash:
  assumes l: "strip line0 \<noteq> []" "\<not> startswith ''#'' (strip line0)"
    and u: "hd (split_fields (strip line0)) \<noteq> []"
  shows "hd (hd (split_fields (strip line0))) \<noteq> CHR ''#''"
proof -
  let ?l = "strip line0"
  let ?p = "takeWhile (\<lambda>c. c \<noteq> CHR '','') ?l"
  have hp: "hd (split_fields ?l) = strip ?p"
    by (simp add: split_fields_def hd_map split_on_not_Nil hd_split_on)
  then have sp: "strip ?p \<noteq> []" using u by simp
  then have p: "?p \<noteq> []" by (auto simp: strip_Nil)
  then have "hd ?p = hd ?l" by (cases ?l) (auto split: if_splits)
  moreover have "\<not> is_space (hd ?l)" using l(1) by (rule hd_strip)
  ultimately have "dropWhile is_space ?p = ?p" using p by (simp add: dropWhile_hd)
  then have "hd (strip ?p) = hd ?l"
    using hd_strip_dropWhile[OF sp] \<open>hd ?p = hd ?l\<close> by simp
  moreover have "hd ?l \<noteq> CHR ''#''"
    using l by (cases ?l) (auto simp: startswith_def)
  ultimately show ?thesis using hp by simp
qed

lemma parse_config_line_Some:
  assumes "parse_config_line lbl line0 = Some e"
  shows "strip line0 \<noteq> []" "\<not> startswith ''#'' (strip line0)"
    "e = \<lparr>entry_url = hd (split_fields (strip line0)),
          entry_branch = field_or_none (split_fields (strip line0)) 1,
          entry_name = field_or_none (split_fields (strip line0)) 2,
          entry_source_file = lbl\<rparr>"
    "valid_entry e"
proof -
  let ?l = "strip line0"
  let ?parts = "split_fields ?l"
  from assms show l: "?l \<noteq> []" "\<not> startswith ''#'' ?l"
    by (auto simp: parse_config_line_def Let_def split: if_splits)
  from assms have u: "hd ?parts \<noteq> []"
    by (auto simp: parse_config_line_def Let_def split: if_splits)
  from assms show e: "e = \<lparr>entry_url = hd ?parts, entry_branch = field_or_none ?parts 1,
                  entry_name = field_or_none ?parts 2, entry_source_file = lbl\<rparr>"
    by (auto simp: parse_config_line_def Let_def split: if_splits)
  have "hd ?parts \<in> set ?parts"
    by (metis hd_in_set list.map_disc_iff split_fields_def split_on_not_Nil)
  then have cu: "clean_field (hd ?parts)" using u by (rule split_fields_clean)
  have nh: "hd (hd ?parts) \<noteq> CHR ''#''" using l u by (rule hd_url_not_hash)
  have "opt_clean (field_or_none ?parts i)" for i
    using field_or_none_clean[of ?l i] by (cases "field_or_none ?parts i") (auto simp: opt_clean_def)
  then show "valid_entry e"
    using cu nh e by (simp add: valid_entry_def)
qed

lemma strip_joined:
  assumes "a \<noteq> []" "\<not> is_space (hd a)" "b \<noteq> []" "\<not> is_space (last b)"
  shows "strip (a @ m @ b) = a @ m @ b"
  using assms by (intro strip_id) auto

lemma parse_line_fields:
  assumes "strip l = l" "l \<noteq> []" "\<not> startswith ''#'' l" "split_fields l = ps" "hd ps \<noteq> []"
  shows "parse_config_line lbl l
         = Some \<lparr>entry_url = hd ps, entry_branch = field_or_none ps 1,
                  entry_name = field_or_none ps 2, entry_source_file = lbl\<rparr>"
  using assms by (simp add: parse_config_line_def Let_def)

lemma parse_serialized:
  assumes v: "valid_entry e"
  shows "parse_config_line (entry_source_file e) (serialize_entry e) = Some e"
proof -
  let ?u = "entry_url e"
  have u: "?u \<noteq> []" "strip ?u = ?u" "CHR '','' \<notin> set ?u" "hd ?u \<noteq> CHR ''#''"
    "\<not> is_space (hd ?u)" "\<not> is_space (last ?u)"
    using v clean_field_ends[of ?u] by (auto simp: valid_entry_def clean_field_def)
  have nh: "\<not> startswith ''#'' (?u @ r)" for r
    using u(1,4) by (cases ?u) (auto simp: startswith_def)
  show ?thesis
  proof (cases "entry_name e")
    case None
    note n = this
    show ?thesis
    proof (cases "entry_branch e")
      case None
      have ser: "serialize_entry e = ?u"
        using n None by (simp add: serialize_entry_def)
      have sf: "split_fields ?u = [?u]"
        using u by (simp add: split_fields_def split_on_none)
      have "parse_config_line (entry_source_file e) ?u
            = Some \<lparr>entry_url = ?u, entry_branch = None, entry_name = None,
                     entry_source_file = entry_source_file e\<rparr>"
        using parse_line_fields[OF u(2) u(1) _ sf] nh[of "[]"] u(1)
        by (simp add: field_or_none_def)
      then show ?thesis using ser n None by simp
    next
      case (Some b)
      then have b: "b \<noteq> []" "strip b = b" "CHR '','' \<notin> set b" "\<not> is_space (last b)"
        using v clean_field_ends[of b] by (auto simp: valid_entry_def opt_clean_def clean_field_def)
      let ?l = "?u @ '','' @ b"
      have ser: "serialize_entry e = ?l"
        using n Some by (simp add: serialize_entry_def)
      have s: "strip ?l = ?l"
        using u b by (intro strip_joined) auto
      have sf: "split_fields ?l = [?u, b]"
        using u b by (simp add: split_fields_def split_on_append split_on_none)
      have "parse_config_line (entry_source_file e) ?l
            = Some \<lparr>entry_url = ?u, entry_branch = Some b, entry_name = None,
                     entry_source_file = entry_source_file e\<rparr>"
        using parse_line_fields[OF s _ nh sf] u(1) b(1)
        by (simp add: field_or_none_def)
      then show ?thesis using ser n Some by simp
    qed
  next
    case (Some n)
    then have n: "n \<noteq> []" "strip n = n" "CHR '','' \<notin> set n" "\<not> is_space (last n)"
      using v clean_field_ends[of n] by (auto simp: valid_entry_def opt_clean_def clean_field_def)
    define b' where "b' = (case entry_branch e of None \<Rightarrow> [] | Some b \<Rightarrow> b)"
    have b': "strip b' = b'" "CHR '','' \<notin> set b'"
      using v by (auto simp: b'_def valid_entry_def opt_clean_def clean_field_def strip_Nil
                  split: option.splits)
    have bo: "(if b' \<noteq> [] then Some b' else None) = entry_branch e"
      using v by (auto simp: b'_def valid_entry_def opt_clean_def clean_field_def
                  split: option.splits)
    let ?l = "?u @ ('','' @ b' @ '','') @ n"
    have ser: "serialize_entry e = ?l"
      using Some by (simp add: serialize_entry_def b'_def)
    have s: "strip ?l = ?l"
      using u n by (intro strip_joined) auto
    have sf: "split_fields ?l = [?u, b', n]"
      using u b' n by (simp add: split_fields_def split_on_append split_on_none)
    have neq: "?l \<noteq> []" using u(1) by simp
    have "parse_config_line (entry_source_file e) ?l
          = Some \<lparr>entry_url = ?u, entry_branch = (if b' \<noteq> [] then Some b' else None),
                   entry_name = Some n, entry_source_file = entry_source_file e\<rparr>"
      using parse_line_fields[OF s neq nh sf] u(1) n(1)
      by (simp add: field_or_none_def)
    then show ?thesis unfolding bo ser[symmetric] using Some by simp
  qed
qed

lemma parse_config_line_skips:
  "strip line = [] \<or> startswith ''#'' (strip line) \<Longrightarrow> parse_config_line lbl line = None"
  "strip (takeWhile (\<lambda>c. c \<noteq> CHR '','') (strip line)) = [] \<Longrightarrow> parse_config_line lbl line = None"
  by (auto simp: parse_config_line_def Let_def split_fields_def hd_map split_on_not_Nil hd_split_on)

lemma parse_config_line_url_only:
  assumes "strip line \<noteq> []" "\<not> startswith ''#'' (strip line)" "CHR '','' \<notin> set line"
  shows "parse_config_line lbl line
         = Some \<lparr>entry_url = strip line, entry_branch = None, entry_name = None,
                  entry_source_file = lbl\<rparr>"
proof -
  have "CHR '','' \<notin> set (strip line)" using assms(3) strip_subset by blast
  then have "split_fields (strip line) = [strip line]"
    by (simp add: split_fields_def split_on_none strip_idem)
  then show ?thesis
    using assms by (simp add: parse_config_line_def Let_def field_or_none_def)
qed

lemma field_or_none_take: "i < k \<Longrightarrow> field_or_none (take k ps) i = field_or_none ps i"
  by (auto simp: field_or_none_def)

lemma parse_config_line_three_fields:
  assumes "take 3 (split_fields (strip l1)) = take 3 (split_fields (strip l2))"
    "strip l1 \<noteq> []" "\<not> startswith ''#'' (strip l1)"
    "strip l2 \<noteq> []" "\<not> startswith ''#'' (strip l2)"
  shows "parse_config_line lbl l1 = parse_config_line lbl l2"
proof -
  have "hd (split_fields (strip l1)) = hd (split_fields (strip l2))"
    using assms(1) by (metis hd_take zero_less_numeral)
  moreover have "field_or_none (split_fields (strip l1)) i = field_or_none (split_fields (strip l2)) i"
    if "i < 3" for i
    using assms(1) field_or_none_take[OF that] by metis
  ultimately show ?thesis
    using assms(2-) by (simp add: parse_config_line_def Let_def)
qed

text \<open>
  Claim C9. A blank line or a line whose first non-blank character is \<open>#\<close> gives no
  entry; a line whose first field is blank gives none; a line without a comma gives
  the entry of its stripped text with no branch and no name; only the first three
  comma-separated fields are read; every entry that is parsed is valid, and writing
  it in the catalog format and parsing that again gives the same entry, as does every
  valid entry.
\<close>

theorem catalog_line_round_trip:
  "(strip line = [] \<or> startswith ''#'' (strip line) \<longrightarrow> parse_config_line lbl line = None)
   \<and> (strip (takeWhile (\<lambda>c. c \<noteq> CHR '','') (strip line)) = []
        \<longrightarrow> parse_config_line lbl line = None)
   \<and> (strip line \<noteq> [] \<and> \<not> startswith ''#'' (strip line) \<and> CHR '','' \<notin> set line
        \<longrightarrow> parse_config_line lbl line
            = Some \<lparr>entry_url = strip line, entry_branch = None, entry_name = None,
                     entry_source_file = lbl\<rparr>)
   \<and> (strip l1 \<noteq> [] \<and> \<not> startswith ''#'' (strip l1)
        \<and> strip l2 \<noteq> [] \<and> \<not> startswith ''#'' (strip l2)
        \<and> take 3 (split_fields (strip l1)) = take 3 (split_fields (strip l2))
        \<longrightarrow> parse_config_line lbl l1 = parse_config_line lbl l2)
   \<and> (parse_config_line lbl line = Some e
        \<longrightarrow> valid_entry e \<and> entry_source_file e = lbl
            \<and> parse_config_line lbl (serialize_entry e) = Some e)
   \<and> (valid_entry e' \<longrightarrow>
          parse_config_line (entry_source_file e') (serialize_entry e') = Some e')"
proof -
  have "valid_entry e \<and> entry_source_file e = lbl
        \<and> parse_config_line lbl (serialize_entry e) = Some e"
    if p: "parse_config_line lbl line = Some e"
  proof -
    have v: "valid_entry e" using p by (rule parse_config_line_Some(4))
    have l: "entry_source_file e = lbl" using parse_config_line_Some(3)[OF p] by simp
    show ?thesis using v l parse_serialized[OF v] by simp
  qed
  then show ?thesis
    using parse_config_line_skips[of line lbl] parse_config_line_url_only[of line lbl]
      parse_config_line_three_fields[of l1 l2 lbl] parse_serialized[of e']
    by blast
qed

text \<open>The scenario line of the specification, a short-form line, a comment and a line
  without URL.\<close>

theorem catalog_line_round_trip_witness:
  "parse_config_line ''repos.conf'' '' https://example.com/acme/tool.git, ,tool ''
     = Some \<lparr>entry_url = ''https://example.com/acme/tool.git'', entry_branch = None,
              entry_name = Some ''tool'', entry_source_file = ''repos.conf''\<rparr>
   \<and> serialize_entry \<lparr>entry_url = ''https://example.com/acme/tool.git'', entry_branch = None,
              entry_name = Some ''tool'', entry_source_file = ''repos.conf''\<rparr>
     = ''https://example.com/acme/tool.git,,tool''
   \<and> parse_config_line ''repos.conf'' ''https://example.com/acme/tool.git,,tool''
     = Some \<lparr>entry_url = ''https://example.com/acme/tool.git'', entry_branch = None,
              entry_name = Some ''tool'', entry_source_file = ''repos.conf''\<rparr>
   \<and> parse_config_line ''repos.conf'' ''acme/tool''
     = Some \<lparr>entry_url = ''acme/tool'', entry_branch = None, entry_name = None,
              entry_source_file = ''repos.conf''\<rparr>
   \<and> parse_config_line ''repos.conf'' ''  # a comment'' = None
   \<and> parse_config_line ''repos.conf'' '' ,main,tool'' = None"
  using catalog_line_round_trip[of "'' https://example.com/acme/tool.git, ,tool ''" "''repos.conf''"
      "''acme/tool''" "''acme/tool''"
      "\<lparr>entry_url = ''https://example.com/acme/tool.git'', entry_branch = None,
              entry_name = Some ''tool'', entry_source_file = ''repos.conf''\<rparr>"]
  by (simp add: parse_config_line_def split_fields_def strip_def is_space_def startswith_def
        field_or_none_def serialize_entry_def Let_def)

section \<open>Properties of the manifest reader\<close>

lemma is_file_iff: "is_file fs p \<longleftrightarrow> (\<exists>x l. map_of fs p = Some (File x l))"
  by (auto simp: is_file_def split: option.splits node.splits)

lemma is_file_exists: "is_file fs p \<Longrightarrow> path_exists fs p"
  by (auto simp: is_file_iff path_exists_def)

lemma load_gitpm_json_cases:
  "load_gitpm_json fs repo_path =
     (case map_of fs (path_join repo_path ''gitpm.json'') of
        Some (File x l) \<Rightarrow> read_marker ''gitpm.json'' l
      | _ \<Rightarrow> (case map_of fs (path_join repo_path ''.gitpm.json'') of
                Some (File x l) \<Rightarrow> read_marker ''.gitpm.json'' l
              | _ \<Rightarrow> (JNull, None)))"
  by (auto simp: load_gitpm_json_def is_file_def path_exists_def split: option.splits node.splits)

text \<open>
  Claim C6. When \<open>gitpm.json\<close> is a file, the result is what reading it gives, whatever
  else the repository holds: its content, or the error of a failed parse or read, and
  then \<open>.gitpm.json\<close> is not looked at. Only when \<open>gitpm.json\<close> is no file is
  \<open>.gitpm.json\<close> read, in the same way. When neither is a file the result is \<open>None\<close>
  without an error. A failure carries an error message; a success and an absence carry
  none.
\<close>

theorem load_gitpm_json_first_candidate:
  "(map_of fs (path_join repo_path ''gitpm.json'') = Some (File x l)
      \<longrightarrow> load_gitpm_json fs repo_path = read_marker ''gitpm.json'' l
          \<and> (\<forall>fs'. map_of fs' (path_join repo_path ''gitpm.json'') = Some (File x l)
                 \<longrightarrow> load_gitpm_json fs' repo_path = load_gitpm_json fs repo_path))
   \<and> (\<not> is_file fs (path_join repo_path ''gitpm.json'')
        \<and> map_of fs (path_join repo_path ''.gitpm.json'') = Some (File x' l')
      \<longrightarrow> load_gitpm_json fs repo_path = read_marker ''.gitpm.json'' l')
   \<and> (\<not> is_file fs (path_join repo_path ''gitpm.json'')
        \<and> \<not> is_file fs (path_join repo_path ''.gitpm.json'')
      \<longrightarrow> load_gitpm_json fs repo_path = (JNull, None))
   \<and> read_marker m (Loads j) = (j, None)
   \<and> fst (read_marker m (DecodeError msg)) = JNull
   \<and> snd (read_marker m (DecodeError msg)) = Some (''Invalid JSON in '' @ m @ '': '' @ msg)
   \<and> snd (read_marker m (ReadError msg)) = Some (''Error reading '' @ m @ '': '' @ msg)"
  by (auto simp: load_gitpm_json_cases is_file_iff read_marker_def split: option.splits node.splits)

text \<open>A first candidate that does not parse hides a valid second one; without the first,
  the second is read.\<close>

theorem load_gitpm_json_first_candidate_witness:
  "load_gitpm_json [(''/r/gitpm.json'', File False (DecodeError ''bad'')),
                    (''/r/.gitpm.json'', File False (Loads (JObj [])))] ''/r''
     = (JNull, Some ''Invalid JSON in gitpm.json: bad'')
   \<and> load_gitpm_json [(''/r/.gitpm.json'', File False (Loads (JObj [])))] ''/r''
     = (JObj [], None)
   \<and> load_gitpm_json [] ''/r'' = (JNull, None)"
  using load_gitpm_json_first_candidate[of
      "[(''/r/gitpm.json'', File False (DecodeError ''bad'')),
        (''/r/.gitpm.json'', File False (Loads (JObj [])))]" "''/r''" False "DecodeError ''bad''"]
  by (simp add: load_gitpm_json_def path_join_def startswith_def is_file_def path_exists_def
        read_marker_def)

section \<open>Properties of the remote verifier\<close>

lemma ref_lines_Nil_iff: "ref_lines t out = [] \<longleftrightarrow> t \<notin> set (remote_refs out)"
  by (auto simp: ref_lines_def remote_refs_def filter_empty_conv Let_def)

text \<open>
  Claim C7. When \<open>git ls-remote\<close> succeeds and a branch is asked for, the
  verification succeeds exactly when \<open>refs/heads/<branch>\<close> is among the listed
  references; when it is not and \<open>refs/tags/<branch>\<close> is, the message says that the
  name is a tag; when neither is listed, the message says that the branch was not
  found.
\<close>

theorem verify_repo_branch:
  assumes "proc e [''git'', ''ls-remote'', ''--heads'', ''--tags'', repo_url] None = Exit 0 out err"
    and "b \<noteq> []"
  shows "fst (verify_repo e repo_url (Some b) s) =
     (if ''refs/heads/'' @ b \<in> set (remote_refs out) then (True, [])
      else if ''refs/tags/'' @ b \<in> set (remote_refs out)
      then (False, quoted b @ '' exists as a tag, not a branch. Please use a branch name.'')
      else (False, ''Branch '' @ quoted b @ '' not found in repository''))"
  using assms
  by (simp add: verify_repo_def run_def verify_result_def ref_lines_Nil_iff split: prod.splits)

text \<open>The example remote has the branch \<open>main\<close> and the tag \<open>v1\<close>.\<close>

theorem verify_repo_branch_witness:
  "fst (verify_repo ex_env ''https://example.com/acme/tool.git'' (Some ''main'') ex_state)
     = (True, [])
   \<and> fst (verify_repo ex_env ''https://example.com/acme/tool.git'' (Some ''v1'') ex_state)
     = (False, quoted ''v1'' @ '' exists as a tag, not a branch. Please use a branch name.'')
   \<and> fst (verify_repo ex_env ''https://example.com/acme/tool.git'' (Some ''dev'') ex_state)
     = (False, ''Branch '' @ quoted ''dev'' @ '' not found in repository'')"
  using verify_repo_branch[of ex_env "''https://example.com/acme/tool.git''" ex_refs "[]" "''main''" ex_state]
    verify_repo_branch[of ex_env "''https://example.com/acme/tool.git''" ex_refs "[]" "''v1''" ex_state]
    verify_repo_branch[of ex_env "''https://example.com/acme/tool.git''" ex_refs "[]" "''dev''" ex_state]
  by code_simp

section \<open>What the hook functions leave alone\<close>

lemma only_events_iff: "only_events P s s' \<longleftrightarrow> (\<exists>evs. trace s' = trace s @ evs \<and> list_all P evs)"
  unfolding only_events_def
  by (metis append_eq_conv_conj append_take_drop_id)

lemma same_but_mode_refl: "same_but_mode a a"
  by (auto simp: same_but_mode_def split: node.splits)

lemma same_but_mode_trans: "same_but_mode a b \<Longrightarrow> same_but_mode b c \<Longrightarrow> same_but_mode a c"
  by (auto simp: same_but_mode_def split: node.splits)

lemma chmod_only_refl: "chmod_only fs fs"
  by (simp add: chmod_only_def list_all2_same same_but_mode_refl)

lemma chmod_only_trans: "chmod_only a b \<Longrightarrow> chmod_only b c \<Longrightarrow> chmod_only a c"
  unfolding chmod_only_def by (rule list_all2_trans[OF same_but_mode_trans])

lemma chmod_only_set_executable: "chmod_only fs (set_executable p fs)"
  by (auto simp: chmod_only_def set_executable_def list_all2_map2 list_all2_same same_but_mode_def
           split: node.splits if_splits)

lemma chmod_only_map_of:
  "chmod_only fs fs' \<Longrightarrow> (map_of fs p = None) = (map_of fs' p = None)"
  unfolding chmod_only_def
  by (induction fs fs' rule: list_all2_induct) (auto simp: same_but_mode_def)

lemma chmod_only_exists: "chmod_only fs fs' \<Longrightarrow> path_exists fs' p = path_exists fs p"
  using chmod_only_map_of[of fs fs' p] by (simp add: path_exists_def)

lemma quiet_refl: "quiet P s s"
  by (simp add: quiet_def chmod_only_refl only_events_iff)

lemma quiet_trans: "quiet P s s1 \<Longrightarrow> quiet P s1 s2 \<Longrightarrow> quiet P s s2"
  unfolding quiet_def only_events_iff
  by (auto intro: chmod_only_trans)

lemma quiet_emit: "P ev \<Longrightarrow> quiet P s (emit ev s)"
  by (simp add: quiet_def emit_def chmod_only_refl only_events_iff)

lemma quiet_mono: "quiet P s s' \<Longrightarrow> (\<And>ev. P ev \<Longrightarrow> Q ev) \<Longrightarrow> quiet Q s s'"
  unfolding quiet_def only_events_iff
  by (auto simp: list_all_iff)

lemma quiet_chmod: "P (Chmod p) \<Longrightarrow> quiet P s (chmod_755 e p s)"
  by (auto simp: quiet_def chmod_755_def emit_def chmod_only_refl chmod_only_set_executable
        only_events_iff)

lemma quiet_run: "P (Run argv cwd) \<Longrightarrow> quiet P s (snd (run e argv cwd s))"
  by (simp add: run_def quiet_emit)

lemma quiet_find_script:
  assumes "\<And>p. P (Chmod p)"
  shows "quiet P s (snd (find_script e rp names s))"
proof (induction names arbitrary: s)
  case Nil
  show ?case by (simp add: quiet_refl)
next
  case (Cons nm names)
  have c: "quiet P s (chmod_755 e p s)" for p s using assms by (rule quiet_chmod)
  show ?case
    using Cons[of s] Cons[of "chmod_755 e (path_join rp nm) s"] c[of s "path_join rp nm"]
    by (auto simp: Let_def quiet_refl intro: quiet_trans)
qed

lemma find_script_names:
  "fst (find_script e rp names s) = Some p \<Longrightarrow> \<exists>nm\<in>set names. p = path_join rp nm"
  by (induction names arbitrary: s) (auto simp: Let_def split: if_splits)

lemma quiet_check_scripts:
  assumes "\<And>p. P (Chmod p)"
  shows "quiet P s (snd (check_scripts e rp s))"
proof -
  note f = quiet_find_script[of P, OF assms]
  obtain a s1 where 1: "find_script e rp (hook_names ''setup'' ''install'' (if system e then ''system'' else ''user'')) s = (a, s1)"
    by force
  obtain b s2 where 2: "find_script e rp (hook_names ''remove'' ''uninstall'' (if system e then ''system'' else ''user'')) s1 = (b, s2)"
    by force
  obtain c s3 where 3: "find_script e rp (hook_names ''update'' ''upgrade'' (if system e then ''system'' else ''user'')) s2 = (c, s3)"
    by force
  obtain d s4 where 4: "find_script e rp (hook_names ''check'' ''check-updates'' (if system e then ''system'' else ''user'')) s3 = (d, s4)"
    by force
  have "quiet P s s1" "quiet P s1 s2" "quiet P s2 s3" "quiet P s3 s4"
    using f[of s e rp] f[of s1 e rp] f[of s2 e rp] f[of s3 e rp] 1 2 3 4
    by (metis snd_conv)+
  then have "quiet P s s4" by (blast intro: quiet_trans)
  then show ?thesis
    using 1 2 3 4 by (simp add: check_scripts_def Let_def)
qed


lemma quiet_run_script:
  assumes "\<And>p. P (Chmod p)" "\<And>x. P (Print x)" "\<And>x. P (PrintErr x)"
    "P (Run [''bash'', sp] (Some rp))" "P (Run [sys_executable e, sp] (Some rp))"
  shows "quiet P s (snd (run_script e sp rp flag s))"
proof -
  define s1 where "s1 = (if shell_style sp then chmod_755 e sp s else s)"
  define cmd where "cmd = (if path_suffix sp = ''.py'' then [sys_executable e, sp] else [''bash'', sp])"
  have 1: "quiet P s s1"
    using assms(1) by (simp add: s1_def quiet_refl quiet_chmod)
  have "P (Run cmd (Some rp))" using assms(4,5) by (simp add: cmd_def)
  then have 2: "quiet P s1 (emit (Run cmd (Some rp)) s1)" by (rule quiet_emit)
  have 3: "quiet P (emit (Run cmd (Some rp)) s1) (snd (run_script e sp rp flag s))"
    using assms(2,3)
    by (auto simp: run_script_def run_def Let_def s1_def cmd_def quiet_refl quiet_emit
          split: proc_result.splits intro: quiet_trans[OF quiet_emit quiet_emit])
  show ?thesis using 1 2 3 by (blast intro: quiet_trans)
qed

lemma quiet_run_removal_hook:
  assumes "\<And>p. P (Chmod p)" "\<And>x. P (Print x)" "\<And>x. P (PrintErr x)"
    "\<And>argv cwd. P (Run argv cwd)"
  shows "quiet P s (run_removal_hook e r rp s)"
proof -
  obtain found s1 where cs: "check_scripts e rp s = (found, s1)" by force
  have 1: "quiet P s s1"
    using quiet_check_scripts[of P s e rp] assms(1) cs by simp
  have rs: "quiet P t (snd (run_script e p rp False (emit (Print x) t)))" for t p x
    using quiet_run_script[of P p rp e "emit (Print x) t" False] assms quiet_emit[of P "Print x" t]
    by (blast intro: quiet_trans)
  have "quiet P s1 (run_removal_hook e r rp s)"
    using cs rs by (auto simp: run_removal_hook_def Let_def quiet_refl split: option.splits)
  then show ?thesis using 1 by (blast intro: quiet_trans)
qed

section \<open>Properties of \<open>remove\<close>\<close>

lemma map_of_reg_delete: "map_of (reg_delete k r) k' = (if k' = k then None else map_of r k')"
  by (induction r) (auto simp: reg_delete_def)

text \<open>
  Claim C8. For a registered name whose recorded path does not exist, \<open>remove\<close>
  returns true; the entry of that name, and no other, is gone from the registry; the
  registry is saved; no file is touched, and the only events are the warning and the
  save: no hook is looked for or run, no directory removal is attempted.
\<close>

theorem remove_missing_path:
  assumes "map_of (installed s) name = Some r" "\<not> path_exists (files s) (rec_path r)"
  shows "fst (remove e name skip s) = True
     \<and> installed (snd (remove e name skip s)) = reg_delete name (installed s)
     \<and> map_of (installed (snd (remove e name skip s))) name = None
     \<and> (\<forall>k. k \<noteq> name \<longrightarrow>
            map_of (installed (snd (remove e name skip s))) k = map_of (installed s) k)
     \<and> saved (snd (remove e name skip s)) = reg_delete name (installed s)
     \<and> files (snd (remove e name skip s)) = files s
     \<and> trace (snd (remove e name skip s))
         = trace s @ [Print (''Warning: Installation path '' @ rec_path r @ '' does not exist''),
                      SaveInstalled]"
  using assms
  by (simp add: remove_def Let_def save_installed_def emit_def map_of_reg_delete)

lemma remove_False_frame:
  assumes "fst (remove e name skip s) = False"
  shows "quiet (\<lambda>ev. ev \<noteq> SaveInstalled) s (snd (remove e name skip s))"
proof (cases "map_of (installed s) name")
  case None
  then show ?thesis by (simp add: remove_def quiet_emit)
next
  case (Some r)
  let ?P = "\<lambda>ev. ev \<noteq> SaveInstalled"
  let ?rp = "rec_path r"
  from assms Some have ex: "path_exists (files s) ?rp"
    by (auto simp: remove_def Let_def split: if_splits)
  define s1 where "s1 = (if skip then s else run_removal_hook e r ?rp s)"
  have 1: "quiet ?P s s1"
    by (simp add: s1_def quiet_refl quiet_run_removal_hook)
  obtain failure s2 where rm: "rmtree e ?rp s1 = (failure, s2)" by force
  from assms Some ex rm obtain msg where f: "failure = Some msg"
    by (cases failure) (auto simp: remove_def Let_def s1_def)
  have 2: "quiet ?P s1 s2"
    using rm f
    by (auto simp: rmtree_def Let_def quiet_emit split: option.splits if_splits)
  have "snd (remove e name skip s) = emit (PrintErr (''Error removing directory: '' @ msg)) s2"
    using Some ex rm f by (simp add: remove_def Let_def s1_def)
  then show ?thesis
    using 1 2 quiet_emit[of ?P "PrintErr (''Error removing directory: '' @ msg)" s2]
    by (auto intro: quiet_trans)
qed

text \<open>
  Claim C10. For a registered name whose path exists, when the removal of the
  directory raises, \<open>remove\<close> returns false, the registry in memory and the saved
  registry are what they were, the entry is still there, nothing was saved on the
  way, and the last output is the error message.
\<close>

theorem remove_rmtree_failure:
  assumes "map_of (installed s) name = Some r" "path_exists (files s) (rec_path r)"
    "rmtree_error e (rec_path r) = Some msg"
  shows "fst (remove e name skip s) = False
     \<and> installed (snd (remove e name skip s)) = installed s
     \<and> saved (snd (remove e name skip s)) = saved s
     \<and> map_of (installed (snd (remove e name skip s))) name = Some r
     \<and> only_events (\<lambda>ev. ev \<noteq> SaveInstalled) s (snd (remove e name skip s))
     \<and> last (trace (snd (remove e name skip s))) = PrintErr (''Error removing directory: '' @ msg)"
proof -
  have f: "fst (remove e name skip s) = False"
    using assms by (simp add: remove_def Let_def rmtree_def split: prod.splits)
  have l: "last (trace (snd (remove e name skip s))) = PrintErr (''Error removing directory: '' @ msg)"
    using assms by (simp add: remove_def Let_def rmtree_def emit_def split: prod.splits)
  show ?thesis
    using f l remove_False_frame[OF f] assms(1) by (simp add: quiet_def)
qed

text \<open>The example package with its directory gone.\<close>

theorem remove_missing_path_witness:
  "map_of (installed (ex_state\<lparr>files := []\<rparr>)) ''tool'' = Some ex_record
   \<and> \<not> path_exists (files (ex_state\<lparr>files := []\<rparr>)) (rec_path ex_record)
   \<and> fst (remove ex_env ''tool'' False (ex_state\<lparr>files := []\<rparr>)) = True
   \<and> installed (snd (remove ex_env ''tool'' False (ex_state\<lparr>files := []\<rparr>))) = []
   \<and> saved (snd (remove ex_env ''tool'' False (ex_state\<lparr>files := []\<rparr>))) = []"
proof -
  let ?s = "ex_state\<lparr>files := []\<rparr>"
  have h1: "map_of (installed ?s) ''tool'' = Some ex_record" by code_simp
  have h2: "\<not> path_exists (files ?s) (rec_path ex_record)" by code_simp
  have d: "reg_delete ''tool'' (installed ?s) = []" by code_simp
  show ?thesis
    using remove_missing_path[OF h1 h2, of ex_env False] h1 h2 d by simp
qed

text \<open>The example package when its directory cannot be removed.\<close>

theorem remove_rmtree_failure_witness:
  "map_of (installed ex_state) ''tool'' = Some ex_record
   \<and> path_exists (files ex_state) (rec_path ex_record)
   \<and> fst (remove (ex_env\<lparr>rmtree_error := (\<lambda>p. Some ''Permission denied'')\<rparr>) ''tool'' False
           ex_state) = False
   \<and> installed (snd (remove (ex_env\<lparr>rmtree_error := (\<lambda>p. Some ''Permission denied'')\<rparr>)
                          ''tool'' False ex_state))
       = [(''tool'', ex_record)]
   \<and> saved (snd (remove (ex_env\<lparr>rmtree_error := (\<lambda>p. Some ''Permission denied'')\<rparr>)
                      ''tool'' False ex_state))
       = [(''tool'', ex_record)]"
  using remove_rmtree_failure[of ex_state "''tool''" ex_record
      "ex_env\<lparr>rmtree_error := (\<lambda>p. Some ''Permission denied'')\<rparr>" "''Permission denied''" False]
  by code_simp

section \<open>Properties of \<open>update\<close>\<close>

lemma quiet_and_then:
  assumes "quiet P s (snd m)" "\<And>a. fst m = Inr a \<Longrightarrow> quiet P (snd m) (snd (f a (snd m)))"
  shows "quiet P s (snd (and_then m f))"
  using assms by (cases "fst m") (auto simp: and_then_def intro: quiet_trans)

lemma quiet_run_output: "P (Run argv cwd) \<Longrightarrow> quiet P s (snd (run_output e argv cwd s))"
  by (auto simp: run_output_def run_def quiet_emit split: proc_result.splits)

lemma quiet_run_checked: "P (Run argv cwd) \<Longrightarrow> quiet P s (snd (run_checked e argv cwd s))"
  by (auto simp: run_checked_def run_def quiet_emit split: proc_result.splits)

lemma check_scripts_check_name:
  assumes "s_check (fst (check_scripts e rp s)) = Some chk"
  shows "\<exists>nm \<in> set (hook_names ''check'' ''check-updates'' (if system e then ''system'' else ''user'')).
           chk = path_join rp nm"
  using assms find_script_names[of e rp _ _ chk]
  by (auto simp: check_scripts_def Let_def split: prod.splits) (metis fst_conv)+

text \<open>Hook discovery makes executable nothing but the candidates it looks at.\<close>

lemma quiet_find_script_at:
  assumes "\<And>nm. nm \<in> set names \<Longrightarrow> P (Chmod (path_join rp nm))"
  shows "quiet P s (snd (find_script e rp names s))"
  using assms
proof (induction names arbitrary: s)
  case Nil
  show ?case by (simp add: quiet_refl)
next
  case (Cons nm names)
  have c: "quiet P t (chmod_755 e (path_join rp nm) t)" for t
    using Cons.prems[of nm] by (simp add: quiet_chmod)
  have ih: "quiet P t (snd (find_script e rp names t))" for t
    using Cons.IH[of t] Cons.prems by simp
  show ?case
    using ih[of s] ih[of "chmod_755 e (path_join rp nm) s"] c[of s]
    by (auto simp: Let_def quiet_refl intro: quiet_trans)
qed

lemma quiet_check_scripts_at:
  assumes "\<And>nm. nm \<in> set (hook_candidates e) \<Longrightarrow> P (Chmod (path_join rp nm))"
  shows "quiet P s (snd (check_scripts e rp s))"
proof -
  let ?scope = "if system e then ''system'' else ''user''"
  have sub: "set (hook_names ''setup'' ''install'' ?scope) \<subseteq> set (hook_candidates e)"
    "set (hook_names ''remove'' ''uninstall'' ?scope) \<subseteq> set (hook_candidates e)"
    "set (hook_names ''update'' ''upgrade'' ?scope) \<subseteq> set (hook_candidates e)"
    "set (hook_names ''check'' ''check-updates'' ?scope) \<subseteq> set (hook_candidates e)"
    by (auto simp: hook_candidates_def Let_def)
  have f: "quiet P t (snd (find_script e rp names t))"
    if "set names \<subseteq> set (hook_candidates e)" for names t
    using that assms by (intro quiet_find_script_at) auto
  obtain a s1 where 1: "find_script e rp (hook_names ''setup'' ''install'' ?scope) s = (a, s1)"
    by force
  obtain b s2 where 2: "find_script e rp (hook_names ''remove'' ''uninstall'' ?scope) s1 = (b, s2)"
    by force
  obtain c s3 where 3: "find_script e rp (hook_names ''update'' ''upgrade'' ?scope) s2 = (c, s3)"
    by force
  obtain d s4 where 4: "find_script e rp (hook_names ''check'' ''check-updates'' ?scope) s3 = (d, s4)"
    by force
  have "quiet P s s1" "quiet P s1 s2" "quiet P s2 s3" "quiet P s3 s4"
    using f[OF sub(1), of s] f[OF sub(2), of s1] f[OF sub(3), of s2] f[OF sub(4), of s3] 1 2 3 4
    by simp_all
  then have "quiet P s s4" by (blast intro: quiet_trans)
  then show ?thesis
    using 1 2 3 4 by (simp add: check_scripts_def Let_def)
qed

lemma quiet_run_script_at:
  assumes "P (Chmod sp)" "\<And>x. P (Print x)" "\<And>x. P (PrintErr x)"
    "P (Run (hook_command e sp) (Some rp))"
  shows "quiet P s (snd (run_script e sp rp flag s))"
proof -
  define s1 where "s1 = (if shell_style sp then chmod_755 e sp s else s)"
  have 1: "quiet P s s1"
    using assms(1) by (simp add: s1_def quiet_refl quiet_chmod)
  have 2: "quiet P s1 (emit (Run (hook_command e sp) (Some rp)) s1)"
    using assms(4) by (rule quiet_emit)
  have 3: "quiet P (emit (Run (hook_command e sp) (Some rp)) s1) (snd (run_script e sp rp flag s))"
    using assms(2,3)
    by (auto simp: run_script_def run_def Let_def s1_def hook_command_def quiet_refl quiet_emit
          split: proc_result.splits intro: quiet_trans[OF quiet_emit quiet_emit])
  show ?thesis using 1 2 3 by (blast intro: quiet_trans)
qed

text \<open>What hook discovery finds depends on the files only.\<close>

lemma find_script_files:
  "files t = files s \<Longrightarrow>
     fst (find_script e rp names t) = fst (find_script e rp names s)
     \<and> files (snd (find_script e rp names t)) = files (snd (find_script e rp names s))"
proof (induction names arbitrary: s t)
  case Nil
  then show ?case by simp
next
  case (Cons nm names)
  have c: "files (chmod_755 e p t) = files (chmod_755 e p s)" for p
    using Cons.prems by (simp add: chmod_755_def emit_def)
  show ?case
    using Cons.IH[OF Cons.prems] Cons.IH[OF c[of "path_join rp nm"]] Cons.prems c[of "path_join rp nm"]
    by (simp add: Let_def)
qed

lemma check_scripts_files:
  assumes "files t = files s"
  shows "fst (check_scripts e rp t) = fst (check_scripts e rp s)"
proof -
  let ?scope = "if system e then ''system'' else ''user''"
  note f = find_script_files[of _ _ e rp]
  obtain a s1 where 1: "find_script e rp (hook_names ''setup'' ''install'' ?scope) s = (a, s1)"
    by force
  obtain b s2 where 2: "find_script e rp (hook_names ''remove'' ''uninstall'' ?scope) s1 = (b, s2)"
    by force
  obtain c s3 where 3: "find_script e rp (hook_names ''update'' ''upgrade'' ?scope) s2 = (c, s3)"
    by force
  obtain d s4 where 4: "find_script e rp (hook_names ''check'' ''check-updates'' ?scope) s3 = (d, s4)"
    by force
  obtain a' t1 where p1: "find_script e rp (hook_names ''setup'' ''install'' ?scope) t = (a', t1)"
    by force
  obtain b' t2 where p2: "find_script e rp (hook_names ''remove'' ''uninstall'' ?scope) t1 = (b', t2)"
    by force
  obtain c' t3 where p3: "find_script e rp (hook_names ''update'' ''upgrade'' ?scope) t2 = (c', t3)"
    by force
  obtain d' t4 where p4: "find_script e rp (hook_names ''check'' ''check-updates'' ?scope) t3 = (d', t4)"
    by force
  have e1: "a' = a \<and> files t1 = files s1"
    using f[OF assms, of "hook_names ''setup'' ''install'' ?scope"] 1 p1 by simp
  then have e2: "b' = b \<and> files t2 = files s2"
    using f[of t1 s1 "hook_names ''remove'' ''uninstall'' ?scope"] 2 p2 by simp
  then have e3: "c' = c \<and> files t3 = files s3"
    using f[of t2 s2 "hook_names ''update'' ''upgrade'' ?scope"] 3 p3 by simp
  then have e4: "d' = d"
    using f[of t3 s3 "hook_names ''check'' ''check-updates'' ?scope"] 4 p4 by simp
  show ?thesis
    using 1 2 3 4 p1 p2 p3 p4 e1 e2 e3 e4 by (simp add: check_scripts_def Let_def)
qed

text \<open>A hook that is run for its exit code: the command appears in the trace, and
  the code is the one of the process, or 255 when the call raises.\<close>

lemma run_script_exit_code:
  "fst (run_script e p rp True s)
     = ExitCode (case proc e (hook_command e p) (Some rp) of
                   Exit c out err \<Rightarrow> c | Raise x msg \<Rightarrow> 255)
   \<and> Run (hook_command e p) (Some rp) \<in> set (new_events s (snd (run_script e p rp True s)))"
  by (auto simp: run_script_def run_def hook_command_def new_events_def chmod_755_def emit_def
        Let_def split: proc_result.splits)

lemma new_events_trans:
  assumes "only_events P a b" "only_events Q b c"
  shows "new_events a c = new_events a b @ new_events b c"
  using assms unfolding only_events_iff new_events_def by auto

lemma new_events_emit: "new_events s (emit ev s) = [ev]"
  by (simp add: new_events_def emit_def)

lemma only_events_emit: "only_events (\<lambda>x. True) s (emit ev s)"
  by (simp add: only_events_iff emit_def)

lemma quiet_only: "quiet P s s' \<Longrightarrow> only_events P s s'"
  by (simp add: quiet_def)

lemma check_only_event_candidate:
  assumes "nm \<in> set (hook_names ''check'' ''check-updates'' (if system e then ''system'' else ''user''))"
  shows "check_only_event e rp br (Chmod (path_join rp nm))"
    "check_only_event e rp br (Run (hook_command e (path_join rp nm)) (Some rp))"
  using assms unfolding check_only_event_def hook_candidates_def hook_command_def Let_def
  by auto

lemma decide_update_result:
  "\<exists>b t'. decide_update e rp c1 c2 t = (Inr b, t')
     \<and> quiet (check_only_event e rp br) t t'
     \<and> (case s_check (fst (check_scripts e rp t)) of
          None \<Rightarrow> b = (c1 \<noteq> c2)
        | Some chk \<Rightarrow>
            Run (hook_command e chk) (Some rp) \<in> set (new_events t t')
            \<and> b = (case proc e (hook_command e chk) (Some rp) of
                     Exit c out err \<Rightarrow> c = 1 \<or> (c \<noteq> 0 \<and> c1 \<noteq> c2)
                   | Raise x msg \<Rightarrow> c1 \<noteq> c2))"
proof -
  let ?P = "check_only_event e rp br"
  have P: "\<And>x. ?P (Print x)" "\<And>x. ?P (PrintErr x)"
    by (simp_all add: check_only_event_def)
  obtain found s1 where cs: "check_scripts e rp t = (found, s1)" by force
  have C: "?P (Chmod (path_join rp nm))" if "nm \<in> set (hook_candidates e)" for nm
    using that by (auto simp: check_only_event_def)
  have 1: "quiet ?P t s1"
    using quiet_check_scripts_at[of e ?P rp t, OF C] cs by simp
  show ?thesis
  proof (cases "s_check found")
    case None
    then show ?thesis using cs 1 by (simp add: decide_update_def Let_def)
  next
    case (Some chk)
    then obtain nm where nm: "nm \<in> set (hook_names ''check'' ''check-updates'' (if system e then ''system'' else ''user''))"
      "chk = path_join rp nm"
      using check_scripts_check_name[of e rp t chk] cs by auto
    note R = check_only_event_candidate[OF nm(1), of rp br, folded nm(2)]
    define s2 where "s2 = emit (Print (''Running check script: '' @ chk)) s1"
    obtain res s3 where rs: "run_script e chk rp True s2 = (res, s3)" by force
    define code where "code = (case proc e (hook_command e chk) (Some rp) of
                   Exit c out err \<Rightarrow> c | Raise x msg \<Rightarrow> 255)"
    have res: "res = ExitCode code"
      and ran: "Run (hook_command e chk) (Some rp) \<in> set (new_events s2 s3)"
      using run_script_exit_code[of e chk rp s2] rs by (simp_all add: code_def)
    have 2: "quiet ?P s1 s2" unfolding s2_def using P(1) by (rule quiet_emit)
    have 3: "quiet ?P s2 s3"
      using quiet_run_script_at[of ?P chk e rp s2 True] P R rs by simp
    have 4: "quiet ?P t s3" using 1 2 3 by (blast intro: quiet_trans)
    have t2: "quiet ?P t s2" using 1 2 by (blast intro: quiet_trans)
    have in3: "Run (hook_command e chk) (Some rp) \<in> set (new_events t s3)"
      using new_events_trans[OF quiet_only[OF t2] quiet_only[OF 3]] ran by simp
    have 5: "quiet ?P s3 (emit (PrintErr x) s3)" for x
      using P(2) by (rule quiet_emit)
    have in5: "Run (hook_command e chk) (Some rp) \<in> set (new_events t (emit (PrintErr x) s3))" for x
      using new_events_trans[OF quiet_only[OF 4] quiet_only[OF 5[of x]]] in3 by simp
    have 6: "quiet ?P t (emit (PrintErr x) s3)" for x
      using 4 5[of x] by (blast intro: quiet_trans)
    have d: "decide_update e rp c1 c2 t =
        (if code = 1 then (Inr True, s3)
         else if code = 0 then (Inr False, s3)
         else (Inr (c1 \<noteq> c2),
               emit (PrintErr (''Warning: Check script returned error code '' @ str_int code)) s3))"
      using cs Some rs res by (simp add: decide_update_def Let_def s2_def)
    have b: "(if code = 1 then True else if code = 0 then False else c1 \<noteq> c2)
             = (case proc e (hook_command e chk) (Some rp) of
                     Exit c out err \<Rightarrow> c = 1 \<or> (c \<noteq> 0 \<and> c1 \<noteq> c2)
                   | Raise x msg \<Rightarrow> c1 \<noteq> c2)"
      by (auto simp: code_def split: proc_result.splits)
    show ?thesis
      using cs Some 4 6 in3 in5 b by (auto simp: d)
  qed
qed

lemma quiet_decide_update:
  "quiet (check_only_event e rp br) s (snd (decide_update e rp c1 c2 s))"
  using decide_update_result[of e rp c1 c2 s br] by auto

lemma quiet_updates_available:
  "quiet (check_only_event e rp br) s (snd (updates_available e rp br s))"
proof -
  let ?P = "check_only_event e rp br"
  have r1: "?P (Run [''git'', ''rev-parse'', ''HEAD''] (Some rp))"
    and r2: "?P (Run [''git'', ''rev-parse'', remote_ref_of br] (Some rp))"
    by (simp_all add: check_only_event_def)
  show ?thesis
    unfolding updates_available_def
    by (intro quiet_and_then quiet_run_output r1 r2 quiet_decide_update)
qed

text \<open>The three ways through an update that only checks, for a package whose
  directory exists.\<close>

lemma update_named_fetch_fails:
  assumes "map_of (installed s) name = Some r" "path_exists (files s) (rec_path r)"
    "proc e [''git'', ''fetch'', ''origin''] (Some (rec_path r)) = Exit rc out err" "rc \<noteq> 0"
  shows "update_named e name True s
    = (Inr False,
       emits [Print (''Checking for updates: '' @ name @ ''...''),
              Run [''git'', ''fetch'', ''origin''] (Some (rec_path r)),
              PrintErr (''Error updating '' @ quoted name @ '': ''
                        @ cpe_text e [''git'', ''fetch'', ''origin''] rc)] s)"
  using assms
  by (simp add: update_named_def update_steps_def run_checked_def run_def and_then_def
        Let_def emit_def emits_def)

lemma update_named_fetch_raises:
  assumes "map_of (installed s) name = Some r" "path_exists (files s) (rec_path r)"
    "proc e [''git'', ''fetch'', ''origin''] (Some (rec_path r)) = Raise x msg"
    "x \<noteq> CalledProcessError"
  shows "update_named e name True s
    = (Inl x,
       emits [Print (''Checking for updates: '' @ name @ ''...''),
              Run [''git'', ''fetch'', ''origin''] (Some (rec_path r))] s)"
  using assms
  by (simp add: update_named_def update_steps_def run_checked_def run_def and_then_def
        Let_def emit_def emits_def)

lemma update_named_checks:
  assumes "map_of (installed s) name = Some r" "path_exists (files s) (rec_path r)"
    "proc e [''git'', ''fetch'', ''origin''] (Some (rec_path r)) = Exit 0 out err"
    "proc e [''git'', ''rev-parse'', ''HEAD''] (Some (rec_path r)) = Exit rc1 out1 err1"
    "proc e [''git'', ''rev-parse'', remote_ref_of (rec_branch r)] (Some (rec_path r))
       = Exit rc2 out2 err2"
    "decide_update e (rec_path r) (strip out1) (strip out2)
       (emits [Print (''Checking for updates: '' @ name @ ''...''),
               Run [''git'', ''fetch'', ''origin''] (Some (rec_path r)),
               Run [''git'', ''rev-parse'', ''HEAD''] (Some (rec_path r)),
               Run [''git'', ''rev-parse'', remote_ref_of (rec_branch r)] (Some (rec_path r))] s)
       = (Inr b, t)"
  shows "update_named e name True s = (Inr True, emit (availability name b) t)"
  using assms
  by (simp add: update_named_def update_steps_def run_checked_def run_output_def run_def
        updates_available_def and_then_def Let_def emit_def emits_def availability_def)

lemma new_events_emits: "new_events s (emits evs s) = evs"
  by (simp add: new_events_def emits_def)

lemma only_events_emits: "list_all P evs \<Longrightarrow> only_events P s (emits evs s)"
  by (simp add: only_events_iff emits_def)

lemma quiet_emits: "list_all P evs \<Longrightarrow> quiet P s (emits evs s)"
  by (simp add: quiet_def emits_def chmod_only_refl only_events_iff)

text \<open>
  Claim C5, as the code has it. For an installed package named explicitly, an update
  that only checks
  \<^item> leaves the registry in memory and the saved registry, and with them the recorded
    hook paths, as they were; changes no file but for executable bits; and adds to the
    trace only output, the \<open>chmod\<close> of hook candidates of the installation directory,
    and in that directory \<open>git fetch origin\<close>, the two \<open>git rev-parse\<close> and the run
    of a check hook: no checkout, reset, clean or pull;
  \<^item> when the installation directory is missing, prints the error and returns false;
  \<^item> otherwise announces the check and runs \<open>git fetch origin\<close>; when the fetch exits
    with another code than 0 it reports the error and returns false, having run
    nothing else; when the call itself raises, the exception propagates;
  \<^item> when the fetch succeeds and both \<open>git rev-parse\<close> calls return, runs them next,
    in this order, returns true, and its last output tells the availability: without
    a check hook an update is available exactly when the two commits differ; with a
    check hook the hook is run, and an update is available when it exits with 1, is
    not when it exits with 0, and otherwise (also when the hook cannot be run)
    exactly when the two commits differ.
\<close>

theorem update_check_only_frame:
  assumes r: "map_of (installed s) name = Some r" and n: "name \<noteq> []"
    and u: "u = update e (Some name) True s"
    and rp: "rp = rec_path r" and br: "br = rec_branch r"
    and start: "start = Print (''Checking for updates: '' @ name @ ''...'')"
    and fetch: "fetch = [''git'', ''fetch'', ''origin'']"
    and rev_head: "rev_head = [''git'', ''rev-parse'', ''HEAD'']"
    and rev_remote: "rev_remote = [''git'', ''rev-parse'', remote_ref_of br]"
  shows "installed (snd u) = installed s
     \<and> saved (snd u) = saved s
     \<and> chmod_only (files s) (files (snd u))
     \<and> only_events (check_only_event e rp br) s (snd u)
     \<and> (fst u = Inr True \<longrightarrow>
           last (trace (snd u)) \<in> {Print (quoted name @ '' is already up to date''),
                                    Print (''Update available for '' @ quoted name)})
     \<and> (\<not> path_exists (files s) rp \<longrightarrow>
           u = (Inr False,
                emit (Print (''Error: Installation path '' @ rp @ '' does not exist'')) s))
     \<and> (path_exists (files s) rp \<longrightarrow>
           take 2 (new_events s (snd u)) = [start, Run fetch (Some rp)])
     \<and> (\<forall>rc out err.
           path_exists (files s) rp \<and> proc e fetch (Some rp) = Exit rc out err \<and> rc \<noteq> 0 \<longrightarrow>
           u = (Inr False,
                emits [start, Run fetch (Some rp),
                       PrintErr (''Error updating '' @ quoted name @ '': ''
                                 @ cpe_text e fetch rc)] s))
     \<and> (\<forall>x msg.
           path_exists (files s) rp \<and> proc e fetch (Some rp) = Raise x msg
             \<and> x \<noteq> CalledProcessError \<longrightarrow>
           u = (Inl x, emits [start, Run fetch (Some rp)] s))
     \<and> (\<forall>out err rc1 out1 err1 rc2 out2 err2.
           path_exists (files s) rp \<and> proc e fetch (Some rp) = Exit 0 out err
             \<and> proc e rev_head (Some rp) = Exit rc1 out1 err1
             \<and> proc e rev_remote (Some rp) = Exit rc2 out2 err2 \<longrightarrow>
           fst u = Inr True
           \<and> take 4 (new_events s (snd u))
               = [start, Run fetch (Some rp), Run rev_head (Some rp), Run rev_remote (Some rp)]
           \<and> (case s_check (fst (check_scripts e rp s)) of
                None \<Rightarrow> last (trace (snd u)) = availability name (strip out1 \<noteq> strip out2)
              | Some chk \<Rightarrow>
                  Run (hook_command e chk) (Some rp) \<in> set (new_events s (snd u))
                  \<and> last (trace (snd u))
                      = availability name
                          (case proc e (hook_command e chk) (Some rp) of
                             Exit c hook_out hook_err \<Rightarrow>
                               c = 1 \<or> (c \<noteq> 0 \<and> strip out1 \<noteq> strip out2)
                           | Raise x msg \<Rightarrow> strip out1 \<noteq> strip out2)))"
proof -
  let ?P = "check_only_event e rp br"
  have P: "\<And>x. ?P (Print x)" "\<And>x. ?P (PrintErr x)" "?P (Run fetch (Some rp))"
    by (simp_all add: check_only_event_def fetch)
  have un: "u = update_named e name True s"
    using n by (simp add: u update_def nonempty_def)
  let ?s1 = "emit start s"
  let ?s2 = "emits [start, Run fetch (Some rp)] s"
  define rest where "rest = (\<lambda>(x :: int \<times> string \<times> string) s1.
     and_then (updates_available e rp br s1)
       (\<lambda>available s2.
          if \<not> available then
            (Inr True, emit (Print (quoted name @ '' is already up to date'')) s2)
          else (Inr True, emit (Print (''Update available for '' @ quoted name)) s2)))"
  have steps: "update_steps e name rp br True t
                 = and_then (run_checked e fetch (Some rp) t) rest" for t
    by (simp add: update_steps_def rest_def fetch cong: if_cong)
  have q_rest: "quiet ?P t (snd (rest a t))" for a t
    unfolding rest_def
    by (intro quiet_and_then quiet_updates_available) (auto simp: quiet_emit P)
  have last_rest: "fst (rest a t) = Inr True \<longrightarrow>
      last (trace (snd (rest a t))) \<in> {Print (quoted name @ '' is already up to date''),
                                       Print (''Update available for '' @ quoted name)}" for a t
    by (auto simp: rest_def and_then_def emit_def split: sum.splits if_splits)
  have fetched: "snd (run_checked e fetch (Some rp) ?s1) = ?s2"
    by (auto simp: run_checked_def run_def emit_def emits_def split: proc_result.splits)
  have q12: "quiet ?P s ?s2"
    using P by (intro quiet_emits) (simp add: start)
  \<comment> \<open>the frame, and the first two events\<close>
  have frame: "quiet ?P s (snd u)
      \<and> (path_exists (files s) rp \<longrightarrow> only_events ?P ?s2 (snd u))
      \<and> (fst u = Inr True \<longrightarrow>
           last (trace (snd u)) \<in> {Print (quoted name @ '' is already up to date''),
                                    Print (''Update available for '' @ quoted name)})"
  proof (cases "path_exists (files s) rp")
    case False
    then show ?thesis
      using r P(1) quiet_emit[of ?P _ s]
      by (simp add: un rp update_named_def Let_def)
  next
    case True
    obtain res1 where rc: "run_checked e fetch (Some rp) ?s1 = (res1, ?s2)"
      using fetched by (cases "run_checked e fetch (Some rp) ?s1") simp
    show ?thesis
    proof (cases res1)
      case (Inl x)
      have st: "update_steps e name rp br True ?s1 = (Inl x, ?s2)"
        using rc Inl by (simp add: steps and_then_def)
      have a: "quiet ?P ?s2 (snd u) \<and> fst u \<noteq> Inr True"
        using r True st quiet_emit[of ?P "PrintErr _" ?s2] P(2)
        by (cases x) (auto simp: un rp br start update_named_def Let_def quiet_refl)
      then have "quiet ?P s (snd u)" using q12 by (blast intro: quiet_trans)
      then show ?thesis using a quiet_only[of ?P ?s2 "snd u"] by simp
    next
      case (Inr a)
      have st: "update_steps e name rp br True ?s1 = rest a ?s2"
        using rc Inr by (simp add: steps and_then_def)
      obtain res t where rt: "rest a ?s2 = (res, t)" by force
      have qt: "quiet ?P ?s2 t" using q_rest[of ?s2 a] rt by simp
      have lt: "res = Inr True \<longrightarrow>
           last (trace t) \<in> {Print (quoted name @ '' is already up to date''),
                             Print (''Update available for '' @ quoted name)}"
        using last_rest[of a ?s2] rt by simp
      have a: "quiet ?P ?s2 (snd u) \<and> (fst u = Inr True \<longrightarrow> res = Inr True \<and> snd u = t)"
        using r True st rt qt quiet_emit[of ?P "PrintErr _" t] P(2)
        by (auto simp: un rp br start update_named_def Let_def split: sum.splits
              intro: quiet_trans)
      then have "quiet ?P s (snd u)" using q12 by (blast intro: quiet_trans)
      then show ?thesis using a lt quiet_only[of ?P ?s2 "snd u"] by auto
    qed
  qed
  have A1: "installed (snd u) = installed s" using frame by (simp add: quiet_def)
  have A2: "saved (snd u) = saved s" using frame by (simp add: quiet_def)
  have A3: "chmod_only (files s) (files (snd u))" using frame by (simp add: quiet_def)
  have A4: "only_events (check_only_event e rp br) s (snd u)" using frame by (simp add: quiet_def)
  have A5: "fst u = Inr True \<longrightarrow>
           last (trace (snd u)) \<in> {Print (quoted name @ '' is already up to date''),
                                    Print (''Update available for '' @ quoted name)}"
    using frame by simp
  have B: "\<not> path_exists (files s) rp \<longrightarrow>
           u = (Inr False,
                emit (Print (''Error: Installation path '' @ rp @ '' does not exist'')) s)"
    using r by (simp add: un rp update_named_def Let_def)
  have T: "path_exists (files s) rp \<longrightarrow>
           take 2 (new_events s (snd u)) = [start, Run fetch (Some rp)]"
  proof
    assume "path_exists (files s) rp"
    then have o: "only_events ?P ?s2 (snd u)" using frame by simp
    show "take 2 (new_events s (snd u)) = [start, Run fetch (Some rp)]"
      using new_events_trans[OF quiet_only[OF q12] o] by (simp add: new_events_emits)
  qed
  have C: "\<forall>rc out err.
           path_exists (files s) rp \<and> proc e fetch (Some rp) = Exit rc out err \<and> rc \<noteq> 0 \<longrightarrow>
           u = (Inr False,
                emits [start, Run fetch (Some rp),
                       PrintErr (''Error updating '' @ quoted name @ '': ''
                                 @ cpe_text e fetch rc)] s)"
    using update_named_fetch_fails[OF r, of e] by (auto simp: un rp start fetch)
  have E: "\<forall>x msg.
           path_exists (files s) rp \<and> proc e fetch (Some rp) = Raise x msg
             \<and> x \<noteq> CalledProcessError \<longrightarrow>
           u = (Inl x, emits [start, Run fetch (Some rp)] s)"
    using update_named_fetch_raises[OF r, of e] by (auto simp: un rp start fetch)
  have D: "fst u = Inr True
           \<and> take 4 (new_events s (snd u))
               = [start, Run fetch (Some rp), Run rev_head (Some rp), Run rev_remote (Some rp)]
           \<and> (case s_check (fst (check_scripts e rp s)) of
                None \<Rightarrow> last (trace (snd u)) = availability name (strip out1 \<noteq> strip out2)
              | Some chk \<Rightarrow>
                  Run (hook_command e chk) (Some rp) \<in> set (new_events s (snd u))
                  \<and> last (trace (snd u))
                      = availability name
                          (case proc e (hook_command e chk) (Some rp) of
                             Exit c hook_out hook_err \<Rightarrow>
                               c = 1 \<or> (c \<noteq> 0 \<and> strip out1 \<noteq> strip out2)
                           | Raise x msg \<Rightarrow> strip out1 \<noteq> strip out2))"
    if g: "path_exists (files s) rp" "proc e fetch (Some rp) = Exit 0 out err"
        "proc e rev_head (Some rp) = Exit rc1 out1 err1"
        "proc e rev_remote (Some rp) = Exit rc2 out2 err2"
    for out err rc1 out1 err1 rc2 out2 err2
  proof -
    let ?evs = "[start, Run fetch (Some rp), Run rev_head (Some rp), Run rev_remote (Some rp)]"
    let ?s4 = "emits ?evs s"
    obtain b t where d: "decide_update e rp (strip out1) (strip out2) ?s4 = (Inr b, t)"
      and q: "quiet ?P ?s4 t"
      and c: "(case s_check (fst (check_scripts e rp ?s4)) of
          None \<Rightarrow> b = (strip out1 \<noteq> strip out2)
        | Some chk \<Rightarrow>
            Run (hook_command e chk) (Some rp) \<in> set (new_events ?s4 t)
            \<and> b = (case proc e (hook_command e chk) (Some rp) of
                     Exit c hook_out hook_err \<Rightarrow> c = 1 \<or> (c \<noteq> 0 \<and> strip out1 \<noteq> strip out2)
                   | Raise x msg \<Rightarrow> strip out1 \<noteq> strip out2))"
      using decide_update_result[of e rp "strip out1" "strip out2" ?s4 br] by blast
    have res: "u = (Inr True, emit (availability name b) t)"
      using update_named_checks[OF r, of e out err rc1 out1 err1 rc2 out2 err2 b t] g d
      by (simp add: un rp br start fetch rev_head rev_remote)
    have f4: "fst (check_scripts e rp ?s4) = fst (check_scripts e rp s)"
      by (rule check_scripts_files) (simp add: emits_def)
    have o1: "only_events (\<lambda>x. True) s ?s4" by (simp add: only_events_emits)
    have o3: "only_events (\<lambda>x. True) t (emit (availability name b) t)" by (rule only_events_emit)
    have o13: "only_events (\<lambda>x. True) s t"
      using o1 quiet_only[OF q] unfolding only_events_iff by (auto simp: list_all_iff)
    have n13: "new_events s t = ?evs @ new_events ?s4 t"
      using new_events_trans[OF o1 quiet_only[OF q]] by (simp add: new_events_emits)
    have n14: "new_events s (snd u) = ?evs @ new_events ?s4 t @ [availability name b]"
      using new_events_trans[OF o13 o3] n13 by (simp add: res new_events_emit)
    have l: "last (trace (snd u)) = availability name b"
      by (simp add: res emit_def)
    show ?thesis
      using c by (simp add: res[THEN arg_cong[of _ _ fst]] n14 l f4 split: option.splits)
  qed
  have D': "\<forall>out err rc1 out1 err1 rc2 out2 err2.
           path_exists (files s) rp \<and> proc e fetch (Some rp) = Exit 0 out err
             \<and> proc e rev_head (Some rp) = Exit rc1 out1 err1
             \<and> proc e rev_remote (Some rp) = Exit rc2 out2 err2 \<longrightarrow>
           fst u = Inr True
           \<and> take 4 (new_events s (snd u))
               = [start, Run fetch (Some rp), Run rev_head (Some rp), Run rev_remote (Some rp)]
           \<and> (case s_check (fst (check_scripts e rp s)) of
                None \<Rightarrow> last (trace (snd u)) = availability name (strip out1 \<noteq> strip out2)
              | Some chk \<Rightarrow>
                  Run (hook_command e chk) (Some rp) \<in> set (new_events s (snd u))
                  \<and> last (trace (snd u))
                      = availability name
                          (case proc e (hook_command e chk) (Some rp) of
                             Exit c hook_out hook_err \<Rightarrow>
                               c = 1 \<or> (c \<noteq> 0 \<and> strip out1 \<noteq> strip out2)
                           | Raise x msg \<Rightarrow> strip out1 \<noteq> strip out2))"
    using D by blast
  show ?thesis
    by (intro conjI) (fact A1 A2 A3 A4 A5 B T C E D')+
qed

text \<open>
  The example package without a check hook is up to date; with a check hook that exits
  with 1 an update is available, whatever the commits; and when the fetch fails the
  update returns false after the error message. The registry is untouched.
\<close>

theorem update_check_only_frame_witness:
  "map_of (installed ex_state) ''tool'' = Some ex_record
   \<and> installed (snd (update ex_env (Some ''tool'') True ex_state)) = installed ex_state
   \<and> saved (snd (update ex_env (Some ''tool'') True ex_state)) = saved ex_state
   \<and> fst (update ex_env (Some ''tool'') True ex_state) = Inr True
   \<and> new_events ex_state (snd (update ex_env (Some ''tool'') True ex_state))
       = [Print ''Checking for updates: tool...'',
          Run [''git'', ''fetch'', ''origin''] (Some ''/apps/tool''),
          Run [''git'', ''rev-parse'', ''HEAD''] (Some ''/apps/tool''),
          Run [''git'', ''rev-parse'', ''origin/HEAD''] (Some ''/apps/tool''),
          Chmod ''/apps/tool/setup.sh'',
          availability ''tool'' False]
   \<and> fst (update ex_hook_env (Some ''tool'') True ex_hook_state) = Inr True
   \<and> new_events ex_hook_state (snd (update ex_hook_env (Some ''tool'') True ex_hook_state))
       = [Print ''Checking for updates: tool...'',
          Run [''git'', ''fetch'', ''origin''] (Some ''/apps/tool''),
          Run [''git'', ''rev-parse'', ''HEAD''] (Some ''/apps/tool''),
          Run [''git'', ''rev-parse'', ''origin/HEAD''] (Some ''/apps/tool''),
          Chmod ''/apps/tool/setup.sh'',
          Chmod ''/apps/tool/check.sh'',
          Print ''Running check script: /apps/tool/check.sh'',
          Chmod ''/apps/tool/check.sh'',
          Run [''bash'', ''/apps/tool/check.sh''] (Some ''/apps/tool''),
          availability ''tool'' True]
   \<and> fst (update ex_offline_env (Some ''tool'') True ex_state) = Inr False
   \<and> new_events ex_state (snd (update ex_offline_env (Some ''tool'') True ex_state))
       = [Print ''Checking for updates: tool...'',
          Run [''git'', ''fetch'', ''origin''] (Some ''/apps/tool''),
          PrintErr (''Error updating '' @ quoted ''tool'' @ '': ''
                    @ cpe_text ex_offline_env [''git'', ''fetch'', ''origin''] 128)]"
proof -
  have h: "map_of (installed ex_state) ''tool'' = Some ex_record" by code_simp
  have n: "''tool'' \<noteq> []" by simp
  note t = update_check_only_frame[OF h n refl refl refl refl refl refl refl, of ex_env]
  have i: "installed (snd (update ex_env (Some ''tool'') True ex_state)) = installed ex_state"
    using t by (rule conjunct1)
  have s: "saved (snd (update ex_env (Some ''tool'') True ex_state)) = saved ex_state"
    using t by (rule conjunct1[OF conjunct2])
  have a: "fst (update ex_env (Some ''tool'') True ex_state) = Inr True" by code_simp
  have b: "new_events ex_state (snd (update ex_env (Some ''tool'') True ex_state))
       = [Print ''Checking for updates: tool...'',
          Run [''git'', ''fetch'', ''origin''] (Some ''/apps/tool''),
          Run [''git'', ''rev-parse'', ''HEAD''] (Some ''/apps/tool''),
          Run [''git'', ''rev-parse'', ''origin/HEAD''] (Some ''/apps/tool''),
          Chmod ''/apps/tool/setup.sh'',
          availability ''tool'' False]" by code_simp
  have c: "fst (update ex_hook_env (Some ''tool'') True ex_hook_state) = Inr True" by code_simp
  have d: "new_events ex_hook_state (snd (update ex_hook_env (Some ''tool'') True ex_hook_state))
       = [Print ''Checking for updates: tool...'',
          Run [''git'', ''fetch'', ''origin''] (Some ''/apps/tool''),
          Run [''git'', ''rev-parse'', ''HEAD''] (Some ''/apps/tool''),
          Run [''git'', ''rev-parse'', ''origin/HEAD''] (Some ''/apps/tool''),
          Chmod ''/apps/tool/setup.sh'',
          Chmod ''/apps/tool/check.sh'',
          Print ''Running check script: /apps/tool/check.sh'',
          Chmod ''/apps/tool/check.sh'',
          Run [''bash'', ''/apps/tool/check.sh''] (Some ''/apps/tool''),
          availability ''tool'' True]" by code_simp
  have f: "fst (update ex_offline_env (Some ''tool'') True ex_state) = Inr False" by code_simp
  have g: "new_events ex_state (snd (update ex_offline_env (Some ''tool'') True ex_state))
       = [Print ''Checking for updates: tool...'',
          Run [''git'', ''fetch'', ''origin''] (Some ''/apps/tool''),
          PrintErr (''Error updating '' @ quoted ''tool'' @ '': ''
                    @ cpe_text ex_offline_env [''git'', ''fetch'', ''origin''] 128)]" by code_simp
  show ?thesis
    by (intro conjI) (fact h i s a b c d f g)+
qed

text \<open>
  Against claim C5 as stated: the check-only update of the example package changes
  the working tree. \<open>setup.sh\<close> was not executable and is executable afterwards.
\<close>

theorem update_check_only_chmod_counterexample:
  "\<not> executable (files ex_state) ''/apps/tool/setup.sh''
   \<and> executable (files (snd (update ex_env (Some ''tool'') True ex_state))) ''/apps/tool/setup.sh''
   \<and> files (snd (update ex_env (Some ''tool'') True ex_state)) \<noteq> files ex_state"
  by code_simp

section \<open>The dependency resolver at particular manifests\<close>

text \<open>
  Claim C1 says that in user scope a manifest that declares \<open>system_only\<close> makes
  \<open>check_dependencies\<close> return the error about system-wide installation, whatever
  else the manifest holds. The code tests \<open>system_only\<close> only after it has returned
  for a manifest without a \<open>dependencies\<close> section: in user scope the manifest
  \<open>{"system_only": true}\<close> is reported as satisfied, without an error, while the
  same manifest with an empty \<open>dependencies\<close> section gets the error.
\<close>

theorem check_dependencies_system_only_without_dependencies:
  "\<not> system ex_env
   \<and> load_gitpm_json (files (pkg_state (JObj [(''system_only'', JBool True)]))) ''/apps/pkg''
       = (JObj [(''system_only'', JBool True)], None)
   \<and> fst (check_dependencies ex_env ''/apps/pkg''
            (pkg_state (JObj [(''system_only'', JBool True)])))
       = Inr \<lparr>all_satisfied = True, missing_system = [], missing_gitpm = [],
              can_install_system = False, gitpm_dep_info = [], json_error = None\<rparr>
   \<and> fst (check_dependencies ex_env ''/apps/pkg''
            (pkg_state (JObj [(''system_only'', JBool True), (''dependencies'', JObj [])])))
       = Inr \<lparr>all_satisfied = False, missing_system = [], missing_gitpm = [],
              can_install_system = False, gitpm_dep_info = [],
              json_error = Some ''This package requires system-wide installation (use --system flag)''\<rparr>"
  by code_simp

text \<open>
  Claim C3 says that an alternative group none of whose members is installed is
  counted missing, with the list of alternatives in its dependency information. For
  the empty group the code takes the first alternative of a list that has none:
  \<open>check_gitpm_dependencies\<close> raises \<open>IndexError\<close> on \<open>[[]]\<close>, and so does
  \<open>check_dependencies\<close> on a manifest with this \<open>gitpm\<close> section. A group with
  members behaves as claimed: with \<open>tool\<close> installed the group
  \<open>[acme/other, acme/tool]\<close> is satisfied, and the group \<open>[acme/a, acme/b]\<close> is
  missing under the name of its first member.
\<close>

theorem check_gitpm_dependencies_empty_group:
  "check_gitpm_dependencies ex_env [] [] (JArr [JArr []]) = Inl IndexError
   \<and> fst (check_dependencies ex_env ''/apps/pkg''
            (pkg_state (JObj [(''dependencies'', JObj [(''gitpm'', JArr [JArr []])])])))
       = Inl IndexError
   \<and> check_gitpm_dependencies ex_env (files ex_state) (installed ex_state)
         (JArr [JArr [JStr ''acme/other'', JStr ''acme/tool'']])
       = Inr (True, [], [], [])
   \<and> check_gitpm_dependencies ex_env (files ex_state) (installed ex_state)
         (JArr [JArr [JStr ''acme/a'', JStr ''acme/b'']])
       = Inr (False, [''a''],
              [\<lparr>dep_name = ''a'', dep_url = ''acme/a'', dep_branch = None,
                dep_alternatives = Some [JStr ''acme/a'', JStr ''acme/b'']\<rparr>], [])"
  by code_simp

section \<open>Cleaning up after a dependency that requires the system scope\<close>

text \<open>
  Claim C2 says that on every fatal path after the clone the directory of the clone is
  removed, and that a failure of this removal is reported. On the path of a peer
  dependency that requires the system scope, \<open>install\<close> removes the directory with
  errors ignored and prints that it has cleaned up, whatever happened: on a machine
  where \<open>/apps/pkg\<close> cannot be removed the installation fails, the last message is
  \<open>Cleaned up cloned directory: /apps/pkg\<close>, no warning is printed, and the directory
  is still there.
\<close>

theorem dependency_scope_guard_cleanup_unreported:
  "rmtree_error ex_guard_env ''/apps/pkg'' = Some ''[Errno 13] Permission denied''
   \<and> fst (dependency_scope_guard ex_guard_env ''dep'' ''https://example.com/acme/dep.git'' None
            True ''/apps/pkg'' (pkg_state (JObj []))) = Inr False
   \<and> new_events (pkg_state (JObj []))
         (snd (dependency_scope_guard ex_guard_env ''dep'' ''https://example.com/acme/dep.git'' None
                 True ''/apps/pkg'' (pkg_state (JObj []))))
       = [Run [''git'', ''clone'', ''--depth'', ''1'', ''--no-checkout'',
               ''https://example.com/acme/dep.git'', ''/tmp/gitpm_check_0/repo''] None,
          Run [''git'', ''checkout'', ''HEAD'', ''--''] (Some ''/tmp/gitpm_check_0/repo''),
          RmTree ''/tmp/gitpm_check_0'',
          Run [''git'', ''clone'', ''--depth'', ''1'', ''--no-checkout'',
               ''https://example.com/acme/dep.git'', ''/tmp/gitpm_check_dep_0/repo''] None,
          Run [''git'', ''checkout'', ''HEAD'', ''--''] (Some ''/tmp/gitpm_check_dep_0/repo''),
          PrintErr (''Error: Dependency '' @ quoted ''dep'' @ '' requires system-wide installation''),
          PrintErr (''Please install this package with --system flag, or install ''
                    @ quoted ''dep'' @ '' as system first''),
          RmTree ''/tmp/gitpm_check_dep_0'',
          RmTree ''/apps/pkg'',
          PrintErr ''Cleaned up cloned directory: /apps/pkg'',
          RmTree ''/tmp/gitpm_check_dep_0'']
   \<and> path_exists
         (files (snd (dependency_scope_guard ex_guard_env ''dep'' ''https://example.com/acme/dep.git''
                        None True ''/apps/pkg'' (pkg_state (JObj []))))) ''/apps/pkg''"
  by code_simp

end
